theory Spec2Isabelle
  imports Complex_Main
begin

section \<open>How the module is modelled\<close>

text \<open>
  The module exports one object, \<^verbatim>\<open>CardRenderer\<close>, whose methods draw a card
  into a DOM element with dc.js, d3, crossfilter, a geo heatmap renderer and a
  maps API. Each function of the module is a definition of the same name here.
  The libraries and the browser are not part of the module: a call on them is
  recorded, in order, with its arguments, and what they answer when the code
  asks (the nodes a selector matches, the ticks of an axis, the groups of a
  crossfilter, the methods a chart has, whether its render returns) is a
  parameter. A function that can throw returns the exception beside what it
  did before; a call of a method the chart does not have throws. The statement at the top of the module that adds
  \<^verbatim>\<open>d3.time.quarters\<close> to d3 runs once at load and is not part of any renderer.
\<close>

section \<open>JavaScript values\<close>

text \<open>
  The values the renderers receive in rows, settings and map configuration.
  Numbers are the integers (column indices, field ids, tile coordinates, pixel
  sizes) and NaN; objects are records below, so a property read on them cannot
  fail. Where the source itself tests a value against null, or reads a property
  of a value that may be null, the model keeps the null case.
\<close>

datatype jsval = JUndefined | JNull | JBool bool | JNum int | JNaN | JStr string

text \<open>\<^verbatim>\<open>v == null\<close>: true of null and of undefined only.\<close>

definition eq_null :: "jsval \<Rightarrow> bool" where
  "eq_null v = (v = JNull \<or> v = JUndefined)"

text \<open>ToBoolean, as \<^verbatim>\<open>if (v)\<close>, \<^verbatim>\<open>v && e\<close> and \<^verbatim>\<open>v || e\<close> apply it.\<close>

fun truthy :: "jsval \<Rightarrow> bool" where
  "truthy JUndefined = False"
| "truthy JNull = False"
| "truthy (JBool b) = b"
| "truthy (JNum n) = (n \<noteq> 0)"
| "truthy JNaN = False"
| "truthy (JStr s) = (s \<noteq> [])"

definition digit_char :: "nat \<Rightarrow> char" where
  "digit_char d = char_of (48 + d)"

fun string_of_nat :: "nat \<Rightarrow> string" where
  "string_of_nat n =
     (if n < 10 then [digit_char n]
      else string_of_nat (n div 10) @ [digit_char (n mod 10)])"

definition string_of_int :: "int \<Rightarrow> string" where
  "string_of_int i =
     (if i < 0 then CHR ''-'' # string_of_nat (nat (- i)) else string_of_nat (nat i))"

text \<open>
  ToString, as string concatenation with \<^verbatim>\<open>+\<close> applies it to its operand.
  An integer is written in decimal digits, as JavaScript writes every integer
  below \<open>10\<^sup>2\<^sup>1\<close> in size.
\<close>

fun to_string :: "jsval \<Rightarrow> string" where
  "to_string JUndefined = ''undefined''"
| "to_string JNull = ''null''"
| "to_string (JBool b) = (if b then ''true'' else ''false'')"
| "to_string (JNum n) = string_of_int n"
| "to_string JNaN = ''NaN''"
| "to_string (JStr s) = s"

text \<open>ToNumber (\<open>None\<close> is NaN) and the operator \<^verbatim>\<open>+\<close>; no string is made a number here.\<close>

fun to_number :: "jsval \<Rightarrow> int option" where
  "to_number JNull = Some 0"
| "to_number (JBool b) = Some (if b then 1 else 0)"
| "to_number (JNum n) = Some n"
| "to_number v = None"

fun is_string :: "jsval \<Rightarrow> bool" where
  "is_string (JStr s) = True"
| "is_string v = False"

definition js_add :: "jsval \<Rightarrow> jsval \<Rightarrow> jsval" where
  "js_add a b =
     (if is_string a \<or> is_string b then JStr (to_string a @ to_string b)
      else
        (case (to_number a, to_number b) of
           (Some m, Some n) \<Rightarrow> JNum (m + n)
         | _ \<Rightarrow> JNaN))"

text \<open>\<^verbatim>\<open>row[i]\<close> on an array: undefined past the end.\<close>

definition row_get :: "jsval list \<Rightarrow> nat \<Rightarrow> jsval" where
  "row_get row i = (if i < length row then row ! i else JUndefined)"

datatype json = JsonVal jsval | JsonArr "json list" | JsonObj "(string \<times> json) list"

section \<open>Cards and their visualization settings\<close>

record map_settings =
  latitude_dataset_col_index :: jsval
  longitude_dataset_col_index :: jsval
  latitude_source_table_field_id :: jsval
  longitude_source_table_field_id :: jsval
  zoom :: jsval
  center_latitude :: jsval
  center_longitude :: jsval

record axis_settings =
  labels_enabled :: jsval
  title_text :: jsval
  gridLine_enabled :: jsval
  title_color :: jsval
  title_font_size :: jsval
  gridLineWidth :: jsval
  gridLineColor :: jsval

record line_settings =
  step :: jsval

record pie_settings =
  pie_legend_enabled :: jsval
  pie_colors :: "jsval list"

record chart_settings =
  legend_enabled :: jsval

text \<open>
  \<^verbatim>\<open>settings.pie\<close> and \<^verbatim>\<open>settings.chart\<close> are tested before use by
  \<^verbatim>\<open>applyChartLegend\<close>, so they may be missing; the other groups are read
  without a test.
\<close>

record visualization_settings =
  vs_map :: map_settings
  vs_xAxis :: axis_settings
  vs_yAxis :: axis_settings
  vs_line :: line_settings
  vs_pie :: "pie_settings option"
  vs_chart :: "chart_settings option"

record card =
  display :: string
  dataset_query :: json
  visualization_settings :: visualization_settings

datatype js_exn = Thrown string | TypeError string

record column =
  base_type :: jsval
  display_name :: jsval
  col_unit :: jsval

record dataset =
  rows :: "jsval list list"
  cols :: "column list"

record series_item =
  s_card :: card
  s_data :: dataset

type_synonym element = nat

section \<open>The rendered document and the calls made on the libraries\<close>

text \<open>
  A node of the rendered SVG, with the class list a handler may test. What the
  browser answers when the code queries the document is a \<open>dom_view\<close>: the
  code reads it, the libraries and the browser build it.
\<close>

record dom_element =
  el_id :: nat
  classList :: "string list"

record dom_view =
  chart_selectAll :: "string \<Rightarrow> dom_element list"
  svg_selectAll :: "string \<Rightarrow> dom_element list"
  children :: "dom_element \<Rightarrow> dom_element list"
  parentNode :: "dom_element \<Rightarrow> dom_element option"
  querySelector :: "dom_element \<Rightarrow> string \<Rightarrow> dom_element option"
  getAttribute :: "dom_element \<Rightarrow> string \<Rightarrow> jsval"
  getBBox :: "dom_element \<Rightarrow> int \<times> int"

text \<open>\<^verbatim>\<open>selection.select(s)[0][0]\<close>: the first match, or null.\<close>

definition select_first :: "dom_element list \<Rightarrow> dom_element option" where
  "select_first es = (case es of [] \<Rightarrow> None | e # _ \<Rightarrow> Some e)"

datatype chart_ref = MainChart | SubChart nat

text \<open>The x value of a crossfilter record: the row's first value, or a Date made of it.\<close>

datatype xkey = AsIs jsval | AsDate jsval

text \<open>
  An argument of a library call. A closure the libraries call back is named by
  its source text, with the values it closes over; \<open>ANamed\<close> is a constant or
  a library object written in the source (\<^verbatim>\<open>dc.legend()\<close>, \<^verbatim>\<open>BAR_PADDING_RATIO\<close>).
\<close>

datatype arg =
    AVal jsval
  | AKey xkey
  | ARat "rat option"
  | AList "arg list"
  | AClosure string "arg list"
  | ANamed string
  | AChart chart_ref
  | AElement element

text \<open>An argument of a hover callback: the hovered node, or a plain value.\<close>

datatype harg = HElem dom_element | HVal json

text \<open>
  What a run does to the world outside, in order: calls on crossfilter and on
  dc.js charts (a dotted method name is a call on a part of the chart, as
  \<^verbatim>\<open>chart.xAxis().ticks(n)\<close>), handlers it registers, changes to the document,
  and calls of recording callbacks. A handler is the function from what it is
  given when the event fires to what it then does: the effects made, and the
  exception that ended it, if any.
\<close>

datatype effect =
    CfCall string "arg list"
  | DcNew chart_ref string arg
  | DcCall chart_ref string "arg list"
  | DcSet chart_ref string arg
  | DcOn chart_ref string "dom_view \<Rightarrow> effect list \<times> js_exn option"
  | SelOn "dom_element list" string "dom_element \<Rightarrow> json \<Rightarrow> nat \<Rightarrow> effect list \<times> js_exn option"
  | SelRemove "dom_element list"
  | SelAttr "dom_element list" string arg
  | SetAttribute dom_element string arg
  | RemoveAttribute dom_element string
  | AppendChild dom_element dom_element
  | SetStyleColor dom_element jsval
  | OnHoverChange "harg list"
  | OnRender "nat list list"

type_synonym outcome = "effect list \<times> js_exn option"

type_synonym hover_callback = "harg list \<Rightarrow> outcome"

text \<open>Statement sequencing: the second part runs when the first did not throw.\<close>

definition andThen :: "outcome \<Rightarrow> outcome \<Rightarrow> outcome" where
  "andThen a b = (case snd a of Some e \<Rightarrow> a | None \<Rightarrow> (fst a @ fst b, snd b))"

definition ok :: "effect list \<Rightarrow> outcome" where
  "ok es = (es, None)"

definition throw :: "js_exn \<Rightarrow> outcome" where
  "throw e = ([], Some e)"

text \<open>\<^verbatim>\<open>try { ... } catch (e) {}\<close>: what was done stays done, the exception is dropped.\<close>

definition try_catch :: "outcome \<Rightarrow> outcome" where
  "try_catch a = (fst a, None)"

text \<open>A \<^verbatim>\<open>for ... of\<close> or \<^verbatim>\<open>forEach\<close> loop: it stops at the first exception.\<close>

fun for_each :: "('a \<Rightarrow> outcome) \<Rightarrow> 'a list \<Rightarrow> outcome" where
  "for_each f [] = ok []"
| "for_each f (v # vs) = andThen (f v) (for_each f vs)"

section \<open>Imports, built-ins and libraries\<close>

text \<open>
  What the module imports and what it asks of the built-ins and libraries;
  none of it is defined in the file, so each is a parameter.
  \<^item> \<open>parseFloat v\<close> is \<open>None\<close> for NaN; \<open>date_valid v\<close> is
    \<^verbatim>\<open>!isNaN(new Date(v))\<close>.
  \<^item> \<open>has_method t m\<close>: a dc.js chart made by \<^verbatim>\<open>dc[t]\<close> has a method \<open>m\<close>.
  \<^item> \<open>chart_width el\<close>, \<open>chart_height el\<close>: what \<^verbatim>\<open>chart.width()\<close> and
    \<^verbatim>\<open>chart.height()\<close> answer for the chart anchored at \<open>el\<close>.
  \<^item> \<open>axis_ticks\<close>: what \<^verbatim>\<open>axis.ticks()\<close> answers on an axis whose ticks were
    not set.
  \<^item> \<open>d3_time_has n\<close>: \<^verbatim>\<open>d3.time[n]\<close> is there.
  \<^item> \<open>group_all recs (Some i)\<close>: \<^verbatim>\<open>all()\<close> of the group of the x dimension
    that sums \<^verbatim>\<open>d[y+i] || 0\<close> over the records added; \<open>group_all recs None\<close>:
    of the plain group. A record is its x, the index of its series and its y.
  \<^item> \<open>d3_extent vs\<close>: \<^verbatim>\<open>d3.extent\<close> of the values.
  \<^item> \<open>render_result t es\<close>: how \<^verbatim>\<open>chart.render()\<close> ends on a chart made by
    \<^verbatim>\<open>dc[t]\<close> after the run so far did \<open>es\<close>: \<open>None\<close> when it returns, the
    exception when it throws (as a bar chart that was given no x scale does).
  \<^item> \<open>toUpperCase\<close>: \<^verbatim>\<open>String.prototype.toUpperCase\<close>.
\<close>

record env =
  getAvailableCanvasWidth :: "element \<Rightarrow> jsval"
  getAvailableCanvasHeight :: "element \<Rightarrow> jsval"
  computeSplit :: "(jsval \<times> jsval) list \<Rightarrow> nat list list"
  getFriendlyName :: "column option \<Rightarrow> jsval"
  getCardColors :: "card \<Rightarrow> jsval list"
  computeTimeseriesTicksInterval :: "xkey list \<Rightarrow> column option \<Rightarrow> int \<Rightarrow> int \<Rightarrow> string \<times> int"
  determineSeriesIndexFromElement :: "dom_element \<Rightarrow> jsval"
  JSON_stringify :: "json \<Rightarrow> string"
  encodeURIComponent :: "string \<Rightarrow> string"
  parseFloat :: "jsval \<Rightarrow> rat option"
  isFinite :: "jsval \<Rightarrow> bool"
  date_valid :: "jsval \<Rightarrow> bool"
  has_method :: "string \<Rightarrow> string \<Rightarrow> bool"
  chart_width :: "element \<Rightarrow> int"
  chart_height :: "element \<Rightarrow> int"
  axis_ticks :: "int list"
  d3_time_has :: "string \<Rightarrow> bool"
  group_all :: "(xkey \<times> nat \<times> jsval) list \<Rightarrow> nat option \<Rightarrow> (xkey \<times> jsval) list"
  d3_extent :: "jsval list \<Rightarrow> jsval \<times> jsval"
  render_result :: "string \<Rightarrow> effect list \<Rightarrow> js_exn option"
  toUpperCase :: "string \<Rightarrow> string"

section \<open>Chart helpers\<close>

definition MIN_PIXELS_PER_TICK_x :: int where
  "MIN_PIXELS_PER_TICK_x = 100"

definition MIN_PIXELS_PER_TICK_y :: int where
  "MIN_PIXELS_PER_TICK_y = 30"

definition DEFAULT_INTERPOLATION :: string where
  "DEFAULT_INTERPOLATION = ''linear''"

text \<open>A dc.js chart as the helpers are handed it: which chart, made how, anchored where.\<close>

record chart =
  c_ref :: chart_ref
  c_dcType :: string
  c_element :: element

text \<open>
  A call \<^verbatim>\<open>chart.m(args)\<close>: a chart made by \<^verbatim>\<open>dc[t]\<close> that has no method \<open>m\<close>
  makes the call throw (\<^verbatim>\<open>chart.m is not a function\<close>); the arguments are
  evaluated before that. A call on a part, \<^verbatim>\<open>chart.part().m(args)\<close>, needs the
  method \<open>part\<close>.
\<close>

definition dc_part :: "env \<Rightarrow> chart \<Rightarrow> string \<Rightarrow> effect list \<Rightarrow> outcome" where
  "dc_part E ch part es =
     (if has_method E (c_dcType ch) part then ok es
      else throw (TypeError (part @ '' is not a function'')))"

definition dc_call :: "env \<Rightarrow> chart \<Rightarrow> string \<Rightarrow> arg list \<Rightarrow> outcome" where
  "dc_call E ch m args = dc_part E ch m [DcCall (c_ref ch) m args]"

definition dc_part_call :: "env \<Rightarrow> chart \<Rightarrow> string \<Rightarrow> string \<Rightarrow> arg list \<Rightarrow> outcome" where
  "dc_part_call E ch part m args = dc_part E ch part [DcCall (c_ref ch) (part @ ''.'' @ m) args]"

text \<open>Statements one after the other: the first exception ends the sequence.\<close>

fun seq :: "outcome list \<Rightarrow> outcome" where
  "seq [] = ok []"
| "seq (a # as) = andThen a (seq as)"

text \<open>
  \<^verbatim>\<open>chart.render()\<close> after a part of a run: the call is made, and dc.js decides
  from the chart and what was done to it whether it returns.
\<close>

definition thenRender :: "env \<Rightarrow> chart \<Rightarrow> outcome \<Rightarrow> outcome" where
  "thenRender E ch a =
     andThen a ([DcCall (c_ref ch) ''render'' []], render_result E (c_dcType ch) (fst a))"

text \<open>\<^verbatim>\<open>cols[i]\<close>: undefined past the end.\<close>

definition col_get :: "column list \<Rightarrow> nat \<Rightarrow> column option" where
  "col_get cs i = (if i < length cs then Some (cs ! i) else None)"

definition dimensionIsTimeseries :: "env \<Rightarrow> dataset \<Rightarrow> bool" where
  "dimensionIsTimeseries E result =
    (let hasDateField =
           (case cols result of [] \<Rightarrow> False | c # _ \<Rightarrow> base_type c = JStr ''DateField'');
         isDateFirstVal =
           (case rows result of
              [] \<Rightarrow> False
            | r # _ \<Rightarrow>
                (case r of
                   [] \<Rightarrow> False
                 | v # _ \<Rightarrow>
                     if \<not> (parseFloat E v \<noteq> None \<and> isFinite E v) then date_valid E v
                     else False))
     in hasDateField \<or> isDateFirstVal)"

text \<open>
  \<^verbatim>\<open>(a / n) < m\<close> and \<^verbatim>\<open>Math.round(a / m)\<close> on integers. A division by zero
  is an infinity of the sign of \<open>a\<close>, or NaN when \<open>a\<close> is zero; \<^verbatim>\<open>Math.round\<close>
  rounds a half up.
\<close>

definition div_less :: "int \<Rightarrow> int \<Rightarrow> int \<Rightarrow> bool" where
  "div_less a n m =
     (if n > 0 then a < m * n else if n < 0 then a > m * n else a < 0)"

definition math_round_div :: "int \<Rightarrow> int \<Rightarrow> int" where
  "math_round_div a m = (2 * a + m) div (2 * m)"

text \<open>
  \<^verbatim>\<open>adjustTicksIfNeeded\<close>, given what \<^verbatim>\<open>axis.ticks()\<close> answers (an array, of
  which the first entry counts); it returns the calls made and what
  \<^verbatim>\<open>axis.ticks()\<close> answers afterwards. The minimum is 100 or 30, never zero.
\<close>

definition adjustTicksIfNeeded ::
  "chart_ref \<Rightarrow> string \<Rightarrow> int list \<Rightarrow> int \<Rightarrow> int \<Rightarrow> effect list \<times> int list" where
  "adjustTicksIfNeeded ch axis ticks axisSize minPixelsPerTick =
     (case ticks of
        [] \<Rightarrow> ([], ticks)
      | numTicks # _ \<Rightarrow>
          if div_less axisSize numTicks minPixelsPerTick then
            ([DcCall ch (axis @ ''.ticks'') [AVal (JNum (math_round_div axisSize minPixelsPerTick))]],
             [math_round_div axisSize minPixelsPerTick])
          else ([], ticks))"

definition getDcjsChartType :: "string \<Rightarrow> string" where
  "getDcjsChartType cardType =
     (if cardType = ''pie'' then ''pieChart''
      else if cardType = ''line'' then ''lineChart''
      else if cardType = ''area'' then ''lineChart''
      else if cardType = ''bar'' then ''barChart''
      else ''barChart'')"

definition applyChartBoundary :: "env \<Rightarrow> chart \<Rightarrow> outcome" where
  "applyChartBoundary E ch =
     seq [dc_call E ch ''width'' [AVal (getAvailableCanvasWidth E (c_element ch))],
          dc_call E ch ''height'' [AVal (getAvailableCanvasHeight E (c_element ch))]]"

definition applyChartLegend :: "env \<Rightarrow> chart \<Rightarrow> card \<Rightarrow> outcome" where
  "applyChartLegend E ch crd =
    (let settings = visualization_settings crd;
         legendEnabled =
           (case (if display crd = ''pie'' then vs_pie settings else None) of
              Some p \<Rightarrow> pie_legend_enabled p
            | None \<Rightarrow>
                (case vs_chart settings of
                   Some c \<Rightarrow> legend_enabled c
                 | None \<Rightarrow> JBool False))
     in if truthy legendEnabled then dc_call E ch ''legend'' [ANamed ''dc.legend()'']
        else ok [])"

text \<open>
  \<^verbatim>\<open>initializeChart\<close>; the chart type defaults to the one of the card's display.
  It returns the chart and what making it did.
\<close>

definition initializeChart ::
  "env \<Rightarrow> chart_ref \<Rightarrow> card \<Rightarrow> element \<Rightarrow> string option \<Rightarrow> chart \<times> outcome" where
  "initializeChart E r crd element chartType =
    (let t = (case chartType of Some t \<Rightarrow> t | None \<Rightarrow> getDcjsChartType (display crd));
         ch = \<lparr> c_ref = r, c_dcType = t, c_element = element \<rparr>
     in (ch,
         seq [ok [DcNew r t (AElement element)],
              applyChartBoundary E ch,
              applyChartLegend E ch crd,
              dc_call E ch ''transitionDuration'' [AVal (JNum 0)]]))"

text \<open>\<^verbatim>\<open>a || b\<close> where reading \<open>b\<close> may throw: \<open>b\<close> is not read when \<open>a\<close> is truthy.\<close>

definition or_else :: "jsval \<Rightarrow> js_exn + jsval \<Rightarrow> js_exn + jsval" where
  "or_else a b = (if truthy a then Inr a else b)"

definition display_name_of :: "column list \<Rightarrow> js_exn + jsval" where
  "display_name_of cs =
     (case cs of [] \<Rightarrow> Inl (TypeError ''cols[0].display_name'') | c # _ \<Rightarrow> Inr (display_name c))"

definition unit_of :: "column list \<Rightarrow> jsval" where
  "unit_of cs = (case cs of [] \<Rightarrow> JUndefined | c # _ \<Rightarrow> col_unit c)"

definition applyChartTimeseriesXAxis ::
  "env \<Rightarrow> chart \<Rightarrow> card \<Rightarrow> column list \<Rightarrow> xkey list \<Rightarrow> outcome" where
  "applyChartTimeseriesXAxis E ch crd cs xValues =
    (let settings = visualization_settings crd;
         x = vs_xAxis settings
     in
     andThen
       (if truthy (labels_enabled x) then
          (case or_else (if truthy (title_text x) then title_text x else JNull) (display_name_of cs) of
             Inl e \<Rightarrow> throw e
           | Inr label \<Rightarrow>
               (let interval =
                      computeTimeseriesTicksInterval E xValues (col_get cs 0)
                        (chart_width E (c_element ch)) MIN_PIXELS_PER_TICK_x
                in seq
                  [dc_call E ch ''xAxisLabel'' [AVal label],
                   dc_call E ch ''renderVerticalGridLines'' [AVal (gridLine_enabled x)],
                   (if truthy (unit_of cs) then
                      dc_part_call E ch ''xAxis'' ''tickFormat''
                        [AClosure ''d => formatValue(d, cols[0])'' [AVal (unit_of cs)]]
                    else
                      dc_part_call E ch ''xAxis'' ''tickFormat''
                        [ANamed ''d3.time.format.multi([...])'']),
                   dc_part_call E ch ''xAxis'' ''ticks''
                     [ANamed (''d3.time.'' @ fst interval), AVal (JNum (snd interval))]]))
        else dc_part_call E ch ''xAxis'' ''ticks'' [AVal (JNum 0)])
       (seq
          [dc_call E ch ''x''
             [AClosure ''d3.time.scale().domain(d3.extent(xValues))'' (map AKey xValues)],
           (if truthy (unit_of cs) \<and> d3_time_has E (to_string (unit_of cs) @ ''s'') then
              dc_call E ch ''xUnits'' [ANamed (''d3.time.'' @ to_string (unit_of cs) @ ''s'')]
            else ok [])]))"

text \<open>
  The keys \<^verbatim>\<open>xValues.filter((v, i) => i % keyInterval === 0)\<close> keeps, where
  \<^verbatim>\<open>keyInterval = Math.round(xValues.length / numTicks)\<close>: with no ticks the
  interval is infinite and the first key alone stays.
\<close>

definition visibleKeys :: "xkey list \<Rightarrow> int \<Rightarrow> xkey list" where
  "visibleKeys xValues numTicks =
     (if numTicks = 0 then take 1 xValues
      else
        (let keyInterval = math_round_div (int (length xValues)) numTicks
         in map fst
              (filter (\<lambda>(v, i). keyInterval \<noteq> 0 \<and> int i mod \<bar>keyInterval\<bar> = 0)
                 (zip xValues [0 ..< length xValues]))))"

definition applyChartOrdinalXAxis ::
  "env \<Rightarrow> chart \<Rightarrow> card \<Rightarrow> column list \<Rightarrow> xkey list \<Rightarrow> outcome" where
  "applyChartOrdinalXAxis E ch crd cs xValues =
    (let settings = visualization_settings crd;
         x = vs_xAxis settings;
         r = c_ref ch
     in
     andThen
       (if truthy (labels_enabled x) then
          (case or_else (title_text x) (display_name_of cs) of
             Inl e \<Rightarrow> throw e
           | Inr label \<Rightarrow>
               (let adjusted =
                      adjustTicksIfNeeded r ''xAxis'' [int (length xValues)]
                        (chart_width E (c_element ch)) MIN_PIXELS_PER_TICK_x;
                    numTicks = (case snd adjusted of [] \<Rightarrow> None | n # _ \<Rightarrow> Some n)
                in seq
                  [dc_call E ch ''xAxisLabel'' [AVal label],
                   dc_call E ch ''renderVerticalGridLines'' [AVal (gridLine_enabled x)],
                   dc_part_call E ch ''xAxis'' ''ticks'' [AVal (JNum (int (length xValues)))],
                   ok (fst adjusted),
                   (case numTicks of
                      None \<Rightarrow> ok []
                    | Some n \<Rightarrow>
                        if n < int (length xValues) then
                          dc_part_call E ch ''xAxis'' ''tickValues''
                            [AList (map AKey (visibleKeys xValues n))]
                        else ok []),
                   dc_part_call E ch ''xAxis'' ''tickFormat''
                     [AClosure ''d => formatValue(d, cols[0])'' []]]))
        else
          seq [dc_part_call E ch ''xAxis'' ''ticks'' [AVal (JNum 0)],
               dc_part_call E ch ''xAxis'' ''tickFormat'' [AVal (JStr [])]])
       (seq
          [dc_call E ch ''x'' [AClosure ''d3.scale.ordinal().domain(xValues)'' (map AKey xValues)],
           dc_call E ch ''xUnits'' [ANamed ''dc.units.ordinal'']]))"

definition applyChartYAxis :: "env \<Rightarrow> chart \<Rightarrow> card \<Rightarrow> column list \<Rightarrow> outcome" where
  "applyChartYAxis E ch crd cs =
    (let settings = visualization_settings crd;
         y = vs_yAxis settings;
         r = c_ref ch
     in
     if truthy (labels_enabled y) then
       seq
         [dc_call E ch ''yAxisLabel''
            [AVal (if truthy (title_text y) then title_text y else getFriendlyName E (col_get cs 1))],
          dc_call E ch ''renderHorizontalGridLines'' [AVal (JBool True)],
          dc_call E ch ''elasticY'' [AVal (JBool True)],
          dc_part E ch ''yAxis''
            (fst (adjustTicksIfNeeded r ''yAxis'' (axis_ticks E)
                    (chart_height E (c_element ch)) MIN_PIXELS_PER_TICK_y)),
          (if has_method E (c_dcType ch) ''rightYAxis'' then
             ok (fst (adjustTicksIfNeeded r ''rightYAxis'' (axis_ticks E)
                        (chart_height E (c_element ch)) MIN_PIXELS_PER_TICK_y))
           else ok [])]
     else
       seq
         [dc_part_call E ch ''yAxis'' ''ticks'' [AVal (JNum 0)],
          (if has_method E (c_dcType ch) ''rightYAxis'' then
             ok [DcCall r ''rightYAxis.ticks'' [AVal (JNum 0)]]
           else ok [])])"

text \<open>
  \<^verbatim>\<open>applyChartTooltips\<close> registers one renderlet handler. When dc.js runs it on
  the rendered chart, the handler binds a mousemove and a mouseleave listener
  on every node the selector matches, and removes the title nodes.
\<close>

definition tooltip_selector :: string where
  "tooltip_selector = ''.bar, .dot, .area, .line, g.pie-slice, g.features''"

definition tooltip_mousemove ::
  "env \<Rightarrow> hover_callback option \<Rightarrow> dom_element \<Rightarrow> json \<Rightarrow> nat \<Rightarrow> outcome" where
  "tooltip_mousemove E onHoverChange this d i =
     (case onHoverChange of
        Some cb \<Rightarrow>
          cb [HElem this, HVal d, HVal (JsonVal (determineSeriesIndexFromElement E this))]
      | None \<Rightarrow> ok [])"

definition tooltip_mouseleave ::
  "hover_callback option \<Rightarrow> dom_element \<Rightarrow> json \<Rightarrow> nat \<Rightarrow> outcome" where
  "tooltip_mouseleave onHoverChange this d i =
     (case onHoverChange of
        Some cb \<Rightarrow> cb [HVal (JsonVal JNull)]
      | None \<Rightarrow> ok [])"

definition tooltip_renderlet :: "env \<Rightarrow> hover_callback option \<Rightarrow> dom_view \<Rightarrow> outcome" where
  "tooltip_renderlet E onHoverChange D =
     ok [SelOn (chart_selectAll D tooltip_selector) ''mousemove'' (tooltip_mousemove E onHoverChange),
         SelOn (chart_selectAll D tooltip_selector) ''mouseleave'' (tooltip_mouseleave onHoverChange),
         SelRemove (chart_selectAll D ''title'')]"

definition applyChartTooltips :: "env \<Rightarrow> chart_ref \<Rightarrow> hover_callback option \<Rightarrow> effect list" where
  "applyChartTooltips E r onHoverChange =
     [DcOn r ''renderlet'' (tooltip_renderlet E onHoverChange)]"

definition applyChartLineBarSettings :: "env \<Rightarrow> chart \<Rightarrow> card \<Rightarrow> string \<Rightarrow> effect list" where
  "applyChartLineBarSettings E ch crd chartType =
     (if has_method E (c_dcType ch) ''brushOn'' then
        [DcCall (c_ref ch) ''brushOn'' [AVal (JBool False)]]
      else []) @
     (if has_method E (c_dcType ch) ''interpolate'' then
        (if truthy (step (vs_line (visualization_settings crd))) then
           [DcCall (c_ref ch) ''interpolate'' [AVal (JStr ''step'')]]
         else [DcCall (c_ref ch) ''interpolate'' [AVal (JStr DEFAULT_INTERPOLATION)]])
      else []) @
     (if has_method E (c_dcType ch) ''renderArea'' then
        [DcCall (c_ref ch) ''renderArea'' [AVal (JBool (chartType = ''area''))]]
      else []) @
     (if has_method E (c_dcType ch) ''barPadding'' then
        [DcCall (c_ref ch) ''barPadding'' [ANamed ''BAR_PADDING_RATIO'']]
      else [])"

section \<open>lineAndBarOnRender\<close>

text \<open>
  What a customizer is made for: the node \<^verbatim>\<open>svg.select(...)[0][0]\<close> (null when
  nothing matches), or the \<^verbatim>\<open>children\<close> collection of such a node. A node has
  no \<^verbatim>\<open>length\<close>, a collection has one.
\<close>

datatype target = NullTarget | NodeTarget dom_element | ListTarget "dom_element list"

definition node_target :: "dom_element option \<Rightarrow> target" where
  "node_target n = (case n of None \<Rightarrow> NullTarget | Some e \<Rightarrow> NodeTarget e)"

text \<open>
  The function \<^verbatim>\<open>customizer(element)\<close> returns, applied to an attribute name, a
  value and an optional transform. Reading \<^verbatim>\<open>element.length\<close> of null throws.
\<close>

definition customizer ::
  "target \<Rightarrow> string \<Rightarrow> jsval \<Rightarrow> (jsval \<Rightarrow> jsval) option \<Rightarrow> outcome" where
  "customizer element attrName attrValue attrValueTransformFn =
     (if truthy attrValue then
        (let v = (case attrValueTransformFn of Some f \<Rightarrow> f attrValue | None \<Rightarrow> attrValue)
         in case element of
              NullTarget \<Rightarrow> throw (TypeError ''element.length'')
            | ListTarget es \<Rightarrow> ok (map (\<lambda>e. SetAttribute e attrName (AVal v)) es)
            | NodeTarget e \<Rightarrow> ok [SetAttribute e attrName (AVal v)])
      else ok [])"

text \<open>The bodies of the four \<^verbatim>\<open>try\<close> blocks, before anything is caught.\<close>

definition xAxisLabelCustomizations :: "dom_view \<Rightarrow> axis_settings \<Rightarrow> outcome" where
  "xAxisLabelCustomizations D x =
     (let customizeX = customizer (node_target (select_first (svg_selectAll D ''.x-axis-label'')))
      in andThen (customizeX ''fill'' (title_color x) None)
           (customizeX ''font-size'' (title_font_size x) None))"

definition yAxisLabelCustomizations :: "dom_view \<Rightarrow> axis_settings \<Rightarrow> outcome" where
  "yAxisLabelCustomizations D y =
     (let customizeY = customizer (node_target (select_first (svg_selectAll D ''.y-axis-label'')))
      in andThen (customizeY ''fill'' (title_color y) None)
           (customizeY ''font-size'' (title_font_size y) None))"

definition verticalGridLineCustomizations :: "dom_view \<Rightarrow> axis_settings \<Rightarrow> outcome" where
  "verticalGridLineCustomizations D x =
     (case select_first (svg_selectAll D ''.grid-line.vertical'') of
        None \<Rightarrow> throw (TypeError ''.grid-line.vertical children'')
      | Some n \<Rightarrow>
          (let customizeVertGL = customizer (ListTarget (children D n))
           in andThen (customizeVertGL ''stroke-width'' (gridLineWidth x) None)
                (customizeVertGL ''style'' (gridLineColor x)
                   (Some (\<lambda>colorStr. JStr (''stroke:'' @ to_string colorStr @ '';''))))))"

definition horizontalGridLineCustomizations :: "dom_view \<Rightarrow> axis_settings \<Rightarrow> outcome" where
  "horizontalGridLineCustomizations D y =
     (case select_first (svg_selectAll D ''.grid-line.horizontal'') of
        None \<Rightarrow> throw (TypeError ''.grid-line.horizontal children'')
      | Some n \<Rightarrow>
          (let customizeHorzGL = customizer (ListTarget (children D n))
           in andThen (customizeHorzGL ''stroke-width'' (gridLineWidth y) None)
                (customizeHorzGL ''style'' (gridLineColor y)
                   (Some (\<lambda>colorStr. JStr (''stroke:'' @ ''#ddd'' @ '';''))))))"

text \<open>The renderlet \<^verbatim>\<open>lineAndBarOnRender\<close> registers, run on the rendered chart.\<close>

definition onRenderRenderlet :: "dom_view \<Rightarrow> outcome" where
  "onRenderRenderlet D =
     andThen
       (for_each
          (\<lambda>elem. andThen (ok [RemoveAttribute elem ''clip-path''])
             (case parentNode D elem of
                None \<Rightarrow> throw (TypeError ''elem.parentNode.appendChild'')
              | Some p \<Rightarrow> ok [AppendChild p elem]))
          (chart_selectAll D ''.sub, .chart-body''))
       (for_each
          (\<lambda>elem. ok [SetStyleColor elem (getAttribute D elem ''fill'')])
          (svg_selectAll D ''.dc-tooltip circle.dot''))"

text \<open>
  The two assignments to the margins. Each reads the bounding box of the first
  match of its selector, and throws when there is none.
\<close>

definition adjustMargins :: "dom_view \<Rightarrow> chart_ref \<Rightarrow> outcome" where
  "adjustMargins D r =
     andThen
       (case select_first (chart_selectAll D ''.axis.y'') of
          None \<Rightarrow> throw (TypeError ''.axis.y getBBox'')
        | Some n \<Rightarrow> ok [DcSet r ''margins.left'' (AVal (JNum (fst (getBBox D n) + 30)))])
       (case select_first (chart_selectAll D ''.axis.x'') of
          None \<Rightarrow> throw (TypeError ''.axis.x getBBox'')
        | Some n \<Rightarrow> ok [DcSet r ''margins.bottom'' (AVal (JNum (snd (getBBox D n) + 30)))])"

text \<open>\<^verbatim>\<open>lineAndBarOnRender\<close>, on the document \<open>D\<close> the chart has rendered.\<close>

definition lineAndBarOnRender :: "dom_view \<Rightarrow> chart \<Rightarrow> card \<Rightarrow> outcome" where
  "lineAndBarOnRender D ch crd =
    (let settings = visualization_settings crd;
         x = vs_xAxis settings;
         y = vs_yAxis settings
     in
     andThen (try_catch (xAxisLabelCustomizations D x))
    (andThen (try_catch (yAxisLabelCustomizations D y))
    (andThen (try_catch (verticalGridLineCustomizations D x))
    (andThen (try_catch (horizontalGridLineCustomizations D y))
    (andThen (ok [DcOn (c_ref ch) ''renderlet.lineAndBarOnRender'' onRenderRenderlet])
    (andThen (adjustMargins D (c_ref ch))
             (ok [DcCall (c_ref ch) ''render'' []])))))))"

section \<open>CardRenderer: pie, lineAreaBar, bar, line, area\<close>

record card_props =
  props_card :: card
  props_data :: dataset
  props_onHoverChange :: "hover_callback option"

record series_props =
  props_series :: "series_item list"
  series_onHoverChange :: "hover_callback option"
  props_onRender :: "(nat list list \<Rightarrow> outcome) option"

definition pie :: "env \<Rightarrow> element \<Rightarrow> card_props \<Rightarrow> outcome" where
  "pie E element props =
    (let crd = props_card props;
         result = props_data props;
         onHoverChange = props_onHoverChange props;
         settings = visualization_settings crd;
         data = map (\<lambda>row. (row_get row 0, row_get row 1)) (rows result);
         sumTotalValue = foldl (\<lambda>acc d. js_add acc (snd d)) (JNum 0) data;
         made = initializeChart E MainChart crd element None;
         ch = fst made;
         r = c_ref ch
     in
     thenRender E ch
       (seq
          [ok [CfCall ''crossfilter'' [AList (map (\<lambda>d. AList [AVal (fst d), AVal (snd d)]) data)],
               CfCall ''dimension'' [AClosure ''d => d.key'' []],
               CfCall ''group.reduceSum'' [AClosure ''d => d.value'' []]],
           snd made,
           dc_call E ch ''dimension'' [ANamed ''dimension''],
           dc_call E ch ''group'' [ANamed ''group''],
           (case vs_pie settings of
              None \<Rightarrow> throw (TypeError ''settings.pie.colors'')
            | Some p \<Rightarrow>
                seq
                  [dc_call E ch ''colors'' [AList (map AVal (pie_colors p))],
                   dc_call E ch ''colorCalculator''
                     [AClosure ''(d, i) => settings.pie.colors[((i * 5) + Math.floor(i / 5)) % settings.pie.colors.length]''
                        [AList (map AVal (pie_colors p))]],
                   dc_call E ch ''label'' [AClosure ''row => formatValue(row.key, result.cols[0])'' []],
                   dc_call E ch ''title''
                     [AClosure ''d => d.key + : + d.value + ( + percent + %)'' [AVal sumTotalValue]]]),
           ok [DcSet r ''filter'' (AClosure ''() => {}'' [])],
           ok (applyChartTooltips E r onHoverChange)]))"

text \<open>\<^verbatim>\<open>args[i]\<close> of a callback: undefined when the caller passed fewer.\<close>

definition harg_get :: "harg list \<Rightarrow> nat \<Rightarrow> harg" where
  "harg_get args i = (if i < length args then args ! i else HVal (JsonVal JUndefined))"

fun json_truthy :: "json \<Rightarrow> bool" where
  "json_truthy (JsonVal v) = truthy v"
| "json_truthy j = True"

text \<open>
  The callback \<^verbatim>\<open>lineAreaBar\<close> hands to \<^verbatim>\<open>applyChartTooltips\<close>: it hides the
  hovered node when that is a line.
\<close>

definition lineAreaBarHover :: "hover_callback option \<Rightarrow> hover_callback" where
  "lineAreaBarHover onHoverChange args =
     (case onHoverChange of
        None \<Rightarrow> ok []
      | Some cb \<Rightarrow>
          (case harg_get args 0 of
             HElem e \<Rightarrow>
               cb [if ''line'' \<in> set (classList e) then HVal (JsonVal JNull) else HElem e,
                   harg_get args 1, harg_get args 2]
           | HVal v \<Rightarrow>
               if json_truthy v then throw (TypeError ''e.classList.contains'')
               else cb [HVal v, harg_get args 1, harg_get args 2]))"

text \<open>The third parent of a node; reading \<^verbatim>\<open>parentNode\<close> of null throws.\<close>

definition thirdParent :: "dom_view \<Rightarrow> dom_element \<Rightarrow> js_exn + dom_element option" where
  "thirdParent D node =
     (case parentNode D node of
        None \<Rightarrow> Inl (TypeError ''node.parentNode.parentNode'')
      | Some p \<Rightarrow>
          (case parentNode D p of
             None \<Rightarrow> Inl (TypeError ''node.parentNode.parentNode.parentNode'')
           | Some q \<Rightarrow> Inr (parentNode D q)))"

fun map_exn :: "('a \<Rightarrow> js_exn + 'b) \<Rightarrow> 'a list \<Rightarrow> js_exn + 'b list" where
  "map_exn f [] = Inr []"
| "map_exn f (v # vs) =
     (case f v of
        Inl e \<Rightarrow> Inl e
      | Inr w \<Rightarrow> (case map_exn f vs of Inl e \<Rightarrow> Inl e | Inr ws \<Rightarrow> Inr (w # ws)))"

text \<open>
  The renderlet of a grouped bar chart. Widths are fractions (\<open>None\<close> is NaN);
  the exact quotient stands for the quotient of the doubles.
\<close>

definition groupedBarRenderlet :: "env \<Rightarrow> dom_view \<Rightarrow> outcome" where
  "groupedBarRenderlet E D =
     (case map_exn (thirdParent D) (chart_selectAll D ''.sub rect:first-child'') of
        Inl e \<Rightarrow> throw e
      | Inr barCharts \<Rightarrow>
          (case barCharts of
             [] \<Rightarrow> ok []
           | None # _ \<Rightarrow> throw (TypeError ''barCharts[0].querySelector'')
           | Some first # _ \<Rightarrow>
               (case querySelector D first ''rect'' of
                  None \<Rightarrow> throw (TypeError ''querySelector(rect).getAttribute'')
                | Some rect \<Rightarrow>
                    (let oldBarWidth = parseFloat E (getAttribute D rect ''width'');
                         newBarWidthTotal = map_option (\<lambda>w. w / of_nat (length barCharts)) oldBarWidth;
                         seriesPadding =
                           (case newBarWidthTotal of
                              None \<Rightarrow> (2 :: rat)
                            | Some t \<Rightarrow> if t < 4 then 0 else if t < 8 then 1 else 2);
                         newBarWidth = map_option (\<lambda>t. max 1 (t - seriesPadding)) newBarWidthTotal
                     in andThen
                          (ok [SelAttr (chart_selectAll D ''g.sub rect'') ''width'' (ARat newBarWidth)])
                          (for_each
                             (\<lambda>(barChart, index).
                                case barChart of
                                  None \<Rightarrow> throw (TypeError ''barChart.setAttribute'')
                                | Some b \<Rightarrow>
                                    ok [SetAttribute b ''transform''
                                          (AClosure ''translate(v, 0)''
                                             [ARat (map_option (\<lambda>w. (w + seriesPadding) * of_nat index)
                                                      newBarWidth)])])
                             (zip barCharts [0 ..< length barCharts]))))))"

text \<open>The records \<^verbatim>\<open>lineAreaBar\<close> adds to the crossfilter for the series at \<open>index\<close>.\<close>

definition seriesRecords :: "bool \<Rightarrow> series_item \<Rightarrow> nat \<Rightarrow> (xkey \<times> nat \<times> jsval) list" where
  "seriesRecords isTimeseries s index =
     map (\<lambda>row. (if isTimeseries then AsDate (row_get row 0) else AsIs (row_get row 0),
                  index, row_get row 1))
       (rows (s_data s))"

definition record_arg :: "xkey \<times> nat \<times> jsval \<Rightarrow> arg" where
  "record_arg rec = AList [AKey (fst rec), AVal (JNum (int (fst (snd rec)))), AVal (snd (snd rec))]"

text \<open>All the records added, one list for each series in turn.\<close>

definition allRecords :: "bool \<Rightarrow> series_item list \<Rightarrow> (xkey \<times> nat \<times> jsval) list list" where
  "allRecords isTimeseries series =
     map (\<lambda>(s, index). seriesRecords isTimeseries s index) (zip series [0 ..< length series])"

text \<open>
  \<^verbatim>\<open>computeSplit(yExtents)\<close>, where \<^verbatim>\<open>yExtents\<close> holds for each of the \<open>n\<close>
  series the extent of the values of its group.
\<close>

definition yAxisSplitOf :: "env \<Rightarrow> (xkey \<times> nat \<times> jsval) list \<Rightarrow> nat \<Rightarrow> nat list list" where
  "yAxisSplitOf E recs n =
     (let yExtents = map (\<lambda>index. d3_extent E (map snd (group_all E recs (Some index)))) [0 ..< n]
      in computeSplit E yExtents)"

text \<open>\<^verbatim>\<open>colors[index % colors.length]\<close>: undefined when there is no colour.\<close>

definition color_at :: "jsval list \<Rightarrow> nat \<Rightarrow> jsval" where
  "color_at cs index = (if cs = [] then JUndefined else cs ! (index mod length cs))"

text \<open>\<^verbatim>\<open>yAxisSplit.length > 1 && yAxisSplit[1].includes(index)\<close>.\<close>

definition onRightAxis :: "nat list list \<Rightarrow> nat \<Rightarrow> bool" where
  "onRightAxis yAxisSplit index = (length yAxisSplit > 1 \<and> index \<in> set (yAxisSplit ! 1))"

text \<open>
  The part of \<^verbatim>\<open>lineAreaBar\<close> that builds the crossfilter dataset, its
  dimension and groups, and the chart: one chart when the series are stacked
  or there is one series, a composite chart of one sub-chart per series
  otherwise. It returns the chart and the calls made.
\<close>

definition lineAreaBarChart ::
  "env \<Rightarrow> element \<Rightarrow> string \<Rightarrow> series_item list \<Rightarrow> card \<Rightarrow> jsval list \<Rightarrow>
   (xkey \<times> nat \<times> jsval) list list \<Rightarrow> nat list list \<Rightarrow> chart \<times> outcome" where
  "lineAreaBarChart E element chartType series crd colors records yAxisSplit =
    (let isStacked = (chartType = ''area'');
         isLinear = False;
         indices = [0 ..< length series];
         made =
           (if isStacked \<or> length series = 1
            then initializeChart E MainChart crd element None
            else initializeChart E MainChart crd element (Some ''compositeChart''));
         ch = fst made;
         r = c_ref ch;
         subType = getDcjsChartType (display crd);
         subChart = (\<lambda>index. \<lparr> c_ref = SubChart index, c_dcType = subType, c_element = element \<rparr>)
     in
     (ch,
      seq
        ([ok ([CfCall ''crossfilter'' []] @
              map (\<lambda>recs. CfCall ''add'' (map record_arg recs)) records @
              [CfCall ''dimension'' [AClosure ''d => d.x'' []]] @
              map (\<lambda>index. CfCall ''group.reduceSum''
                     [AClosure ''d => (d[y+index] || 0)'' [AVal (JNum (int index))]]) indices),
          snd made] @
         (if isStacked \<or> length series = 1 then
            [dc_call E ch ''dimension'' [ANamed ''dimension''],
             dc_call E ch ''group'' [ANamed ''groups[0]'']] @
            map (\<lambda>i. dc_call E ch ''stack'' [AClosure ''groups[i]'' [AVal (JNum (int i))]])
              [1 ..< length series] @
            [ok (applyChartLineBarSettings E ch crd chartType),
             dc_call E ch ''ordinalColors'' [AList (map AVal colors)]]
          else
            [ok (map (\<lambda>index. DcNew (SubChart index) subType (AChart MainChart)) indices)] @
            map (\<lambda>index.
               seq
                 [dc_call E (subChart index) ''dimension'' [ANamed ''dimension''],
                  dc_call E (subChart index) ''group''
                    [AClosure ''groups[index]'' [AVal (JNum (int index))]],
                  dc_call E (subChart index) ''colors'' [AVal (color_at colors index)],
                  dc_call E (subChart index) ''useRightYAxis''
                    [AVal (JBool (onRightAxis yAxisSplit index))],
                  ok (applyChartLineBarSettings E (subChart index) crd chartType),
                  (if has_method E subType ''barPadding'' then
                     seq [ok [DcCall (SubChart index) ''barPadding'' [ANamed ''BAR_PADDING_RATIO'']],
                          dc_call E (subChart index) ''centerBar'' [AVal (JBool isLinear)]]
                   else ok [])])
              indices @
            [dc_call E ch ''compose'' [AList (map (\<lambda>index. AChart (SubChart index)) indices)],
             ok [DcOn r ''renderlet.groupedbar'' (groupedBarRenderlet E)],
             (if chartType = ''bar''
              then dc_call E ch ''_rangeBandPadding'' [ANamed ''BAR_PADDING_RATIO'']
              else dc_call E ch ''_rangeBandPadding'' [AVal (JNum 1)])]))))"

text \<open>
  \<^verbatim>\<open>lineAreaBar\<close>. \<open>D\<close> is the document as \<^verbatim>\<open>lineAndBarOnRender\<close> finds it, after
  the first \<^verbatim>\<open>chart.render()\<close>. The function returns undefined on every path, so
  its outcome is what it did and the exception that ended it, if any.
\<close>

definition lineAreaBar ::
  "env \<Rightarrow> dom_view \<Rightarrow> element \<Rightarrow> string \<Rightarrow> series_props \<Rightarrow> outcome" where
  "lineAreaBar E D element chartType props =
    (let series = props_series props;
         onHoverChange = series_onHoverChange props;
         onRender = props_onRender props
     in
     case series of
       [] \<Rightarrow> throw (TypeError ''series[0]'')
     | s0 # _ \<Rightarrow>
        (let crd = s_card s0;
             result = s_data s0;
             colors = getCardColors E crd;
             isTimeseries = dimensionIsTimeseries E result
         in
         if length (cols result) < 2 then ok []
         else
          (let records = allRecords isTimeseries series;
               xValues = map fst (group_all E (concat records) None);
               yAxisSplit = yAxisSplitOf E (concat records) (length series);
               made = lineAreaBarChart E element chartType series crd colors records yAxisSplit;
               ch = fst made;
               r = c_ref ch
           in
           andThen
             (thenRender E ch
                (seq
                   [snd made,
                    (if isTimeseries then applyChartTimeseriesXAxis E ch crd (cols result) xValues
                     else applyChartOrdinalXAxis E ch crd (cols result) xValues),
                    applyChartYAxis E ch crd (cols result),
                    ok (applyChartTooltips E r (Some (lineAreaBarHover onHoverChange)) @
                        (if has_method E (c_dcType ch) ''brushOn''
                         then [DcCall r ''brushOn'' [AVal (JBool False)]] else []))]))
          (andThen (lineAndBarOnRender D ch crd)
             (case onRender of
                None \<Rightarrow> ok []
              | Some f \<Rightarrow> f yAxisSplit)))))"

definition bar :: "env \<Rightarrow> dom_view \<Rightarrow> element \<Rightarrow> series_props \<Rightarrow> outcome" where
  "bar E D element props = lineAreaBar E D element ''bar'' props"

definition line :: "env \<Rightarrow> dom_view \<Rightarrow> element \<Rightarrow> series_props \<Rightarrow> outcome" where
  "line E D element props = lineAreaBar E D element ''line'' props"

definition area :: "env \<Rightarrow> dom_view \<Rightarrow> element \<Rightarrow> series_props \<Rightarrow> outcome" where
  "area E D element props = lineAreaBar E D element ''area'' props"

section \<open>CardRenderer: state and country\<close>

text \<open>
  \<^verbatim>\<open>GeoHeatmapChartRenderer\<close> is imported, not defined here. The model keeps
  the calls made on it, in order; each of its setters is taken to return the
  renderer, as the chained calls of the source need. The accessor given to
  \<^verbatim>\<open>setJson\<close> reads a feature; the function given to \<^verbatim>\<open>customize\<close> is
  called with the chart the renderer makes.
\<close>

datatype geo_call =
    GeoNew element card dataset
  | GeoSetData "(jsval \<times> jsval) list" string string
  | GeoSetJson string "json \<Rightarrow> js_exn + json"
  | GeoSetProjection string
  | GeoCustomize "chart_ref \<Rightarrow> effect list"
  | GeoRender

text \<open>
  \<^verbatim>\<open>o.name\<close>: reading a property of null or undefined throws; an object
  answers with the value stored under the name, anything else with undefined.
\<close>

definition json_prop :: "json \<Rightarrow> string \<Rightarrow> js_exn + json" where
  "json_prop obj name =
     (case obj of
        JsonObj kvs \<Rightarrow>
          (case map_of kvs name of Some v \<Rightarrow> Inr v | None \<Rightarrow> Inr (JsonVal JUndefined))
      | JsonArr vs \<Rightarrow> Inr (JsonVal JUndefined)
      | JsonVal v \<Rightarrow>
          if eq_null v then Inl (TypeError (''.'' @ name)) else Inr (JsonVal JUndefined))"

text \<open>\<^verbatim>\<open>d.properties.name\<close> for a given last name.\<close>

definition feature_property :: "string \<Rightarrow> json \<Rightarrow> js_exn + json" where
  "feature_property name d =
     (case json_prop d ''properties'' of
        Inl e \<Rightarrow> Inl e
      | Inr ps \<Rightarrow> json_prop ps name)"

text \<open>
  \<^verbatim>\<open>_.findWhere(rows, { [0]: v })\<close>: the first row that has an entry 0
  strictly equal to \<open>v\<close>.
\<close>

definition strict_eq :: "json \<Rightarrow> jsval \<Rightarrow> bool" where
  "strict_eq v w = (v = JsonVal w \<and> w \<noteq> JNaN)"

definition findWhere0 :: "jsval list list \<Rightarrow> json \<Rightarrow> jsval list option" where
  "findWhere0 rs v = find (\<lambda>row. row \<noteq> [] \<and> strict_eq v (row_get row 0)) rs"

text \<open>What a hover callback's datum is tested as by \<^verbatim>\<open>if (d)\<close>, and read as an object.\<close>

definition harg_json :: "harg \<Rightarrow> json" where
  "harg_json a = (case a of HElem e \<Rightarrow> JsonObj [] | HVal v \<Rightarrow> v)"

definition hover_datum :: "jsval \<Rightarrow> jsval \<Rightarrow> harg" where
  "hover_datum k v = HVal (JsonObj [(''data'', JsonObj [(''key'', JsonVal k), (''value'', JsonVal v)])])"

definition stateHover :: "dataset \<Rightarrow> hover_callback option \<Rightarrow> hover_callback" where
  "stateHover data onHoverChange args =
     (case onHoverChange of
        None \<Rightarrow> ok []
      | Some cb \<Rightarrow>
          (let e = harg_get args 0; d = harg_get args 1; seriesIndex = harg_get args 2
           in if json_truthy (harg_json d) then
                (case feature_property ''name'' (harg_json d) of
                   Inl ex \<Rightarrow> throw ex
                 | Inr name \<Rightarrow>
                     (case findWhere0 (rows data) name of
                        None \<Rightarrow> cb [e, HVal (JsonVal (JBool False)), seriesIndex]
                      | Some row \<Rightarrow> cb [e, hover_datum (row_get row 0) (row_get row 1), seriesIndex]))
              else cb [e, d, seriesIndex]))"

definition state :: "env \<Rightarrow> element \<Rightarrow> card_props \<Rightarrow> geo_call list" where
  "state E element props =
    (let crd = props_card props;
         data = props_data props;
         onHoverChange = props_onHoverChange props;
         chartData = map (\<lambda>value. (row_get value 0, row_get value 1)) (rows data)
     in [GeoNew element crd data,
         GeoSetData chartData ''stateCode'' ''value'',
         GeoSetJson ''/app/charts/us-states.json'' (feature_property ''name''),
         GeoSetProjection ''d3.geo.albersUsa()'',
         GeoCustomize (\<lambda>r. applyChartTooltips E r (Some (stateHover data onHoverChange))),
         GeoRender])"

text \<open>\<^verbatim>\<open>s.substring(0, 2)\<close>.\<close>

definition substring_0_2 :: "string \<Rightarrow> string" where
  "substring_0_2 s = take 2 s"

text \<open>The function \<^verbatim>\<open>country\<close> maps over the rows.\<close>

definition countryChartDatum :: "env \<Rightarrow> jsval list \<Rightarrow> jsval \<times> jsval" where
  "countryChartDatum E value =
     (let countryCode = row_get value 0;
          countryCode' =
            (case countryCode of
               JStr s \<Rightarrow> JStr (toUpperCase E (substring_0_2 s))
             | _ \<Rightarrow> countryCode)
      in (countryCode', row_get value 1))"

definition countryHover :: "dataset \<Rightarrow> hover_callback option \<Rightarrow> hover_callback" where
  "countryHover data onHoverChange args =
     (case onHoverChange of
        None \<Rightarrow> ok []
      | Some cb \<Rightarrow>
          (let e = harg_get args 0; d = harg_get args 1; seriesIndex = harg_get args 2
           in if json_truthy (harg_json d) then
                (case feature_property ''ISO_A2'' (harg_json d) of
                   Inl ex \<Rightarrow> throw ex
                 | Inr code \<Rightarrow>
                     (case findWhere0 (rows data) code of
                        None \<Rightarrow> cb [e, HVal (JsonVal (JBool False)), seriesIndex]
                      | Some row \<Rightarrow>
                          (case feature_property ''NAME'' (harg_json d) of
                             Inl ex \<Rightarrow> throw ex
                           | Inr name \<Rightarrow>
                               cb [e,
                                   HVal (JsonObj [(''data'',
                                     JsonObj [(''key'', name), (''value'', JsonVal (row_get row 1))])]),
                                   seriesIndex])))
              else cb [e, d, seriesIndex]))"

definition country :: "env \<Rightarrow> element \<Rightarrow> card_props \<Rightarrow> geo_call list" where
  "country E element props =
    (let crd = props_card props;
         data = props_data props;
         onHoverChange = props_onHoverChange props;
         chartData = map (countryChartDatum E) (rows data)
     in [GeoNew element crd data,
         GeoSetData chartData ''code'' ''value'',
         GeoSetJson ''/app/charts/world.json'' (feature_property ''ISO_A2''),
         GeoSetProjection ''d3.geo.mercator()'',
         GeoCustomize (\<lambda>r. applyChartTooltips E r (Some (countryHover data onHoverChange))),
         GeoRender])"

text \<open>The JSON source a run of \<^verbatim>\<open>state\<close> or \<^verbatim>\<open>country\<close> set, and its key accessor.\<close>

fun json_source :: "geo_call list \<Rightarrow> (string \<times> (json \<Rightarrow> js_exn + json)) option" where
  "json_source [] = None"
| "json_source (GeoSetJson url key # cs) = Some (url, key)"
| "json_source (c # cs) = json_source cs"

fun chart_data :: "geo_call list \<Rightarrow> (jsval \<times> jsval) list option" where
  "chart_data [] = None"
| "chart_data (GeoSetData d k v # cs) = Some d"
| "chart_data (c # cs) = chart_data cs"

section \<open>CardRenderer.pin\_map\<close>

text \<open>
  The calls \<^verbatim>\<open>pin_map\<close> makes on the maps API and on the element, in order.
  A listener is the function from what it reads off the map when the event
  fires to the calls it makes on the caller's callbacks.
\<close>

datatype callback_call = UpdateMapCenter jsval jsval | UpdateMapZoom jsval

record map_options =
  mo_zoom :: jsval
  mo_center :: "jsval \<times> jsval"
  mo_mapTypeId :: string
  mo_scrollwheel :: bool

record image_map_type =
  getTileUrl :: "jsval \<times> jsval \<Rightarrow> jsval \<Rightarrow> string"
  tileSize :: "int \<times> int"

datatype gmaps_call =
    SetStyle element string string
  | NewMap element map_options
  | OverlayPush image_map_type
  | AddListener string "jsval list \<Rightarrow> callback_call list"
  | Trigger string
  | AddEventListener element string "gmaps_call list"

text \<open>The arrow function given as \<^verbatim>\<open>getTileUrl\<close>, with the variables it closes over.\<close>

definition tile_url ::
  "env \<Rightarrow> json \<Rightarrow> jsval \<Rightarrow> jsval \<Rightarrow> jsval \<Rightarrow> jsval \<Rightarrow> jsval \<times> jsval \<Rightarrow> jsval \<Rightarrow> string" where
  "tile_url E query lat_field lon_field lat_col lon_col coord zoom_level =
     ''/api/tiles/'' @ to_string zoom_level @ ''/'' @ to_string (fst coord) @ ''/'' @
       to_string (snd coord) @ ''/'' @
       to_string lat_field @ ''/'' @ to_string lon_field @ ''/'' @
       to_string lat_col @ ''/'' @ to_string lon_col @ ''/'' @
       ''?query='' @ encodeURIComponent E (JSON_stringify E query)"

definition pin_map :: "env \<Rightarrow> element \<Rightarrow> card \<Rightarrow> js_exn + gmaps_call list" where
  "pin_map E element crd =
    (let query = dataset_query crd;
         vs = visualization_settings crd;
         lat_col = latitude_dataset_col_index (vs_map vs);
         lon_col = longitude_dataset_col_index (vs_map vs);
         lat_field = latitude_source_table_field_id (vs_map vs);
         lon_field = longitude_source_table_field_id (vs_map vs)
     in
     if eq_null lat_col \<or> eq_null lon_col then Inr []
     else if eq_null lat_field \<or> eq_null lon_field then
       Inl (Thrown ''Map ERROR: latitude and longitude column indices must be specified'')
     else if eq_null lat_col \<or> eq_null lon_col then
       Inl (Thrown ''Map ERROR: unable to find specified latitude / longitude columns in source table'')
     else
       (let mapOptions = \<lparr> mo_zoom = zoom (vs_map vs),
                            mo_center = (center_latitude (vs_map vs), center_longitude (vs_map vs)),
                            mo_mapTypeId = ''google.maps.MapTypeId.MAP'',
                            mo_scrollwheel = False \<rparr>;
            markerImageMapType =
              \<lparr> getTileUrl = tile_url E query lat_field lon_field lat_col lon_col,
                tileSize = (256, 256) \<rparr>;
            height = getAvailableCanvasHeight E element;
            width = getAvailableCanvasWidth E element
        in Inr
          ((if \<not> eq_null height then [SetStyle element ''height'' (to_string height @ ''px'')] else []) @
           (if \<not> eq_null width then [SetStyle element ''width'' (to_string width @ ''px'')] else []) @
           [NewMap element mapOptions,
            OverlayPush markerImageMapType,
            AddListener ''center_changed''
              (\<lambda>center. [UpdateMapCenter (row_get center 0) (row_get center 1)]),
            AddListener ''zoom_changed'' (\<lambda>z. [UpdateMapZoom (row_get z 0)]),
            Trigger ''resize'',
            AddEventListener element ''cardrenderer-card-resized'' [Trigger ''resize'']])))"

text \<open>The tile function of the overlay a run of \<^verbatim>\<open>pin_map\<close> pushed on the map.\<close>

fun overlay_tile_url :: "gmaps_call list \<Rightarrow> (jsval \<times> jsval \<Rightarrow> jsval \<Rightarrow> string) option" where
  "overlay_tile_url [] = None"
| "overlay_tile_url (OverlayPush t # cs) = Some (getTileUrl t)"
| "overlay_tile_url (c # cs) = overlay_tile_url cs"

section \<open>Handlers and render\<close>

text \<open>
  A run calls render itself, at once, or it could leave the call to a handler
  it registers on the chart. \<open>defers_render D es\<close> says that some handler that
  \<open>es\<close> registers on a chart calls a render when dc.js runs it on the document
  \<open>D\<close>.
\<close>

fun is_render :: "effect \<Rightarrow> bool" where
  "is_render (DcCall r m args) = (m = ''render'')"
| "is_render e = False"

fun handler_effects :: "dom_view \<Rightarrow> effect \<Rightarrow> effect list" where
  "handler_effects D (DcOn r event h) = fst (h D)"
| "handler_effects D e = []"

definition defers_render :: "dom_view \<Rightarrow> effect list \<Rightarrow> bool" where
  "defers_render D es = list_ex (\<lambda>e. list_ex is_render (handler_effects D e)) es"

text \<open>What the functions given to \<^verbatim>\<open>customize\<close> do to the chart \<open>r\<close> they are called with.\<close>

fun customize_effects :: "chart_ref \<Rightarrow> geo_call \<Rightarrow> effect list" where
  "customize_effects r (GeoCustomize f) = f r"
| "customize_effects r c = []"

section \<open>The exported object\<close>

text \<open>
  \<^verbatim>\<open>CardRenderer\<close> is an object literal of eight methods. A method is kept with
  the shape of its arguments: the props of one card, the props of a list of
  series (with or without a chart type before them), or a card alone.
\<close>

datatype operation =
    CardOp "env \<Rightarrow> element \<Rightarrow> card_props \<Rightarrow> outcome"
  | ChartTypeOp "env \<Rightarrow> dom_view \<Rightarrow> element \<Rightarrow> string \<Rightarrow> series_props \<Rightarrow> outcome"
  | SeriesOp "env \<Rightarrow> dom_view \<Rightarrow> element \<Rightarrow> series_props \<Rightarrow> outcome"
  | GeoOp "env \<Rightarrow> element \<Rightarrow> card_props \<Rightarrow> geo_call list"
  | MapOp "env \<Rightarrow> element \<Rightarrow> card \<Rightarrow> js_exn + gmaps_call list"

definition CardRenderer :: "(string \<times> operation) list" where
  "CardRenderer =
     [(''pie'', CardOp pie),
      (''lineAreaBar'', ChartTypeOp lineAreaBar),
      (''bar'', SeriesOp bar),
      (''line'', SeriesOp line),
      (''area'', SeriesOp area),
      (''state'', GeoOp state),
      (''country'', GeoOp country),
      (''pin_map'', MapOp pin_map)]"

section \<open>Example inputs\<close>

text \<open>
  The methods of the charts dc.js makes: those every chart has, those of the
  charts with axes, and those of one kind of chart.
\<close>

definition example_has_method :: "string \<Rightarrow> string \<Rightarrow> bool" where
  "example_has_method t m =
     (m \<in> set [''width'', ''height'', ''legend'', ''transitionDuration'', ''dimension'', ''group'',
                ''colors'', ''colorCalculator'', ''ordinalColors'', ''label'', ''title''] \<or>
      (t \<in> set [''barChart'', ''lineChart'', ''compositeChart''] \<and>
       m \<in> set [''xAxisLabel'', ''renderVerticalGridLines'', ''xAxis'', ''x'', ''xUnits'',
                  ''yAxisLabel'', ''renderHorizontalGridLines'', ''elasticY'', ''yAxis'',
                  ''brushOn'', ''useRightYAxis'']) \<or>
      (t = ''barChart'' \<and> m \<in> set [''stack'', ''barPadding'', ''centerBar'']) \<or>
      (t = ''lineChart'' \<and> m \<in> set [''stack'', ''interpolate'', ''renderArea'']) \<or>
      (t = ''compositeChart'' \<and> m \<in> set [''compose'', ''_rangeBandPadding'', ''rightYAxis'']))"

text \<open>A chart with axes renders once it was given its x scale.\<close>

fun gives_x_scale :: "effect \<Rightarrow> bool" where
  "gives_x_scale (DcCall r m args) = (m = ''x'')"
| "gives_x_scale e = False"

text \<open>Upper case on ASCII text: the letters a to z are raised, the rest stays.\<close>

definition ascii_upper :: "char \<Rightarrow> char" where
  "ascii_upper c =
     (if 97 \<le> (of_char c :: nat) \<and> (of_char c :: nat) \<le> 122
      then char_of ((of_char c :: nat) - 32) else c)"

definition example_env :: env where
  "example_env =
     \<lparr> getAvailableCanvasWidth = (\<lambda>_. JNum 400),
       getAvailableCanvasHeight = (\<lambda>_. JNull),
       computeSplit = (\<lambda>extents. [[0 ..< length extents]]),
       getFriendlyName = (\<lambda>c. case c of Some col \<Rightarrow> display_name col | None \<Rightarrow> JUndefined),
       getCardColors = (\<lambda>_. [JStr ''#509EE3'']),
       computeTimeseriesTicksInterval = (\<lambda>_ _ _ _. (''month'', 1)),
       determineSeriesIndexFromElement = (\<lambda>_. JNum 0),
       JSON_stringify = (\<lambda>_. ''{}''),
       encodeURIComponent = (\<lambda>_. ''%7B%7D''),
       parseFloat = (\<lambda>v. case v of JNum n \<Rightarrow> Some (of_int n) | _ \<Rightarrow> None),
       isFinite = (\<lambda>v. case v of JNum n \<Rightarrow> True | _ \<Rightarrow> False),
       date_valid = (\<lambda>_. False),
       has_method = example_has_method,
       chart_width = (\<lambda>_. 400),
       chart_height = (\<lambda>_. 300),
       axis_ticks = [10],
       d3_time_has = (\<lambda>_. False),
       group_all = (\<lambda>recs i. map (\<lambda>(k, j, v). (k, v)) (filter (\<lambda>(k, j, v). i = None \<or> i = Some j) recs)),
       d3_extent = (\<lambda>vs. (JNum 0, JNum 10)),
       render_result =
         (\<lambda>t es. if t = ''pieChart'' \<or> list_ex gives_x_scale es then None
                 else Some (TypeError ''x scale'')),
       toUpperCase = map ascii_upper \<rparr>"

definition example_map_settings :: map_settings where
  "example_map_settings =
     \<lparr> latitude_dataset_col_index = JNum 0,
       longitude_dataset_col_index = JNum 1,
       latitude_source_table_field_id = JNum 12,
       longitude_source_table_field_id = JNum 13,
       zoom = JNum 4,
       center_latitude = JNum 37,
       center_longitude = JNum (- 122) \<rparr>"

definition example_axis_settings :: axis_settings where
  "example_axis_settings =
     \<lparr> labels_enabled = JBool True,
       title_text = JNull,
       gridLine_enabled = JBool True,
       title_color = JStr ''#333'',
       title_font_size = JNum 12,
       gridLineWidth = JNull,
       gridLineColor = JStr ''#ccc'' \<rparr>"

definition example_settings :: visualization_settings where
  "example_settings =
     \<lparr> vs_map = example_map_settings,
       vs_xAxis = example_axis_settings,
       vs_yAxis = example_axis_settings,
       vs_line = \<lparr> step = JBool False \<rparr>,
       vs_pie = Some \<lparr> pie_legend_enabled = JBool True, pie_colors = [JStr ''#509EE3'', JStr ''#9CC177''] \<rparr>,
       vs_chart = None \<rparr>"

definition example_card :: card where
  "example_card =
     \<lparr> display = ''bar'',
       dataset_query = JsonObj [],
       visualization_settings = example_settings \<rparr>"

definition example_dataset :: dataset where
  "example_dataset =
     \<lparr> rows = [[JStr ''a'', JNum 3], [JStr ''b'', JNum 5]],
       cols = [\<lparr> base_type = JStr ''TextField'', display_name = JStr ''Name'', col_unit = JNull \<rparr>,
               \<lparr> base_type = JStr ''IntegerField'', display_name = JStr ''Count'', col_unit = JNull \<rparr>] \<rparr>"

text \<open>A dataset of one column only.\<close>

definition one_column_dataset :: dataset where
  "one_column_dataset =
     \<lparr> rows = [[JNum 42]],
       cols = [\<lparr> base_type = JStr ''IntegerField'', display_name = JStr ''Count'', col_unit = JNull \<rparr>] \<rparr>"

definition example_node :: "nat \<Rightarrow> dom_element" where
  "example_node n = \<lparr> el_id = n, classList = [] \<rparr>"

text \<open>
  A rendered chart that has its two axes (nodes 1 and 2) and neither axis
  labels nor grid lines.
\<close>

definition example_dom :: dom_view where
  "example_dom =
     \<lparr> chart_selectAll =
         (\<lambda>sel. if sel = ''.axis.y'' then [example_node 1]
                else if sel = ''.axis.x'' then [example_node 2] else []),
       svg_selectAll = (\<lambda>sel. []),
       children = (\<lambda>_. []),
       parentNode = (\<lambda>_. None),
       querySelector = (\<lambda>_ _. None),
       getAttribute = (\<lambda>_ _. JNull),
       getBBox = (\<lambda>_. (40, 20)) \<rparr>"

text \<open>A rendered bar chart: two bars (nodes 3 and 4) and one title node (node 5).\<close>

definition bars_dom :: dom_view where
  "bars_dom =
     example_dom \<lparr> chart_selectAll :=
       (\<lambda>sel. if sel = ''.bar, .dot, .area, .line, g.pie-slice, g.features''
                then [example_node 3, example_node 4]
              else if sel = ''title'' then [example_node 5] else []) \<rparr>"

definition example_chart :: chart where
  "example_chart = \<lparr> c_ref = MainChart, c_dcType = ''barChart'', c_element = 0 \<rparr>"

text \<open>Callbacks that record that they were called, and with what.\<close>

definition recordHover :: hover_callback where
  "recordHover args = ok [OnHoverChange args]"

definition recordRender :: "nat list list \<Rightarrow> outcome" where
  "recordRender split = ok [OnRender split]"

definition example_series_props :: series_props where
  "example_series_props =
     \<lparr> props_series = [\<lparr> s_card = example_card, s_data = example_dataset \<rparr>],
       series_onHoverChange = Some recordHover,
       props_onRender = Some recordRender \<rparr>"

definition one_column_series_props :: series_props where
  "one_column_series_props =
     \<lparr> props_series = [\<lparr> s_card = example_card, s_data = one_column_dataset \<rparr>],
       series_onHoverChange = Some recordHover,
       props_onRender = Some recordRender \<rparr>"

text \<open>A card drawn as a pie.\<close>

definition example_pie_card :: card where
  "example_pie_card = example_card \<lparr> display := ''pie'' \<rparr>"

definition example_pie_props :: card_props where
  "example_pie_props =
     \<lparr> props_card = example_pie_card, props_data = example_dataset, props_onHoverChange = None \<rparr>"

definition example_card_props :: card_props where
  "example_card_props =
     \<lparr> props_card = example_card, props_data = example_dataset, props_onHoverChange = None \<rparr>"

text \<open>The example card with its latitude column index left null.\<close>

definition card_without_lat_col :: card where
  "card_without_lat_col =
     example_card \<lparr> visualization_settings :=
       example_settings \<lparr> vs_map := example_map_settings \<lparr> latitude_dataset_col_index := JNull \<rparr> \<rparr> \<rparr>"

text \<open>The example card with its longitude field id left undefined.\<close>

definition card_without_lon_field :: card where
  "card_without_lon_field =
     example_card \<lparr> visualization_settings :=
       example_settings \<lparr> vs_map := example_map_settings \<lparr> longitude_source_table_field_id := JUndefined \<rparr> \<rparr> \<rparr>"

section \<open>Properties of pin\_map\<close>

text \<open>
  C1, as the code has it. The first guard of \<^verbatim>\<open>pin_map\<close> returns when a dataset
  column index is null or undefined: nothing is thrown and no map is made. The
  string is thrown when both column indices are there and a source table field
  id is null or undefined.
\<close>

theorem pin_map_missing_configuration:
  "(eq_null (latitude_dataset_col_index (vs_map (visualization_settings crd))) \<or>
    eq_null (longitude_dataset_col_index (vs_map (visualization_settings crd)))
      \<longrightarrow> pin_map E element crd = Inr []) \<and>
   (\<not> eq_null (latitude_dataset_col_index (vs_map (visualization_settings crd))) \<and>
    \<not> eq_null (longitude_dataset_col_index (vs_map (visualization_settings crd))) \<and>
    (eq_null (latitude_source_table_field_id (vs_map (visualization_settings crd))) \<or>
     eq_null (longitude_source_table_field_id (vs_map (visualization_settings crd))))
      \<longrightarrow> pin_map E element crd =
            Inl (Thrown ''Map ERROR: latitude and longitude column indices must be specified''))"
  by (simp add: pin_map_def Let_def)

theorem pin_map_missing_configuration_witness:
  "pin_map example_env 0 card_without_lat_col = Inr [] \<and>
   pin_map example_env 0 card_without_lon_field =
     Inl (Thrown ''Map ERROR: latitude and longitude column indices must be specified'')"
  using pin_map_missing_configuration [of card_without_lat_col example_env 0]
        pin_map_missing_configuration [of card_without_lon_field example_env 0]
  by (simp add: card_without_lat_col_def card_without_lon_field_def example_card_def
        example_settings_def example_map_settings_def eq_null_def)

text \<open>
  C1 as first stated fails: a card whose latitude column index is null
  makes \<^verbatim>\<open>pin_map\<close> return without an error.
\<close>

theorem pin_map_null_column_returns:
  "eq_null (latitude_dataset_col_index (vs_map (visualization_settings card_without_lat_col))) \<and>
   pin_map example_env 0 card_without_lat_col = Inr []"
  by (simp add: pin_map_def Let_def card_without_lat_col_def example_card_def
        example_settings_def example_map_settings_def eq_null_def)

text \<open>
  C3: when the two column indices and the two field ids are there,
  \<^verbatim>\<open>pin_map\<close> pushes an overlay whose tile URL for the coordinate (x, y) at zoom
  z is \<^verbatim>\<open>/api/tiles/z/x/y/\<close>, the latitude and longitude field ids, the latitude
  and longitude column indices, each followed by a slash, then \<^verbatim>\<open>?query=\<close> and
  the URI-encoded JSON text of the card's dataset query.
\<close>

theorem pin_map_tile_url:
  assumes "\<not> eq_null (latitude_dataset_col_index (vs_map (visualization_settings crd)))"
    and "\<not> eq_null (longitude_dataset_col_index (vs_map (visualization_settings crd)))"
    and "\<not> eq_null (latitude_source_table_field_id (vs_map (visualization_settings crd)))"
    and "\<not> eq_null (longitude_source_table_field_id (vs_map (visualization_settings crd)))"
  shows "\<exists>calls f. pin_map E element crd = Inr calls \<and> overlay_tile_url calls = Some f \<and>
           (\<forall>x y z. f (x, y) z =
              ''/api/tiles/'' @ to_string z @ ''/'' @ to_string x @ ''/'' @ to_string y @ ''/'' @
              to_string (latitude_source_table_field_id (vs_map (visualization_settings crd))) @ ''/'' @
              to_string (longitude_source_table_field_id (vs_map (visualization_settings crd))) @ ''/'' @
              to_string (latitude_dataset_col_index (vs_map (visualization_settings crd))) @ ''/'' @
              to_string (longitude_dataset_col_index (vs_map (visualization_settings crd))) @
              ''/?query='' @ encodeURIComponent E (JSON_stringify E (dataset_query crd)))"
  using assms by (simp add: pin_map_def Let_def tile_url_def)

theorem pin_map_tile_url_witness:
  "\<exists>calls f. pin_map example_env 0 example_card = Inr calls \<and> overlay_tile_url calls = Some f \<and>
     f (JNum 3, JNum 5) (JNum 7) = ''/api/tiles/7/3/5/12/13/0/1/?query=%7B%7D''"
proof -
  have present:
    "\<not> eq_null (latitude_dataset_col_index (vs_map (visualization_settings example_card)))"
    "\<not> eq_null (longitude_dataset_col_index (vs_map (visualization_settings example_card)))"
    "\<not> eq_null (latitude_source_table_field_id (vs_map (visualization_settings example_card)))"
    "\<not> eq_null (longitude_source_table_field_id (vs_map (visualization_settings example_card)))"
    by (simp_all add: example_card_def example_settings_def example_map_settings_def eq_null_def)
  from pin_map_tile_url [OF present, of example_env 0]
  obtain calls f where run: "pin_map example_env 0 example_card = Inr calls"
    and ov: "overlay_tile_url calls = Some f"
    and url: "\<forall>x y z. f (x, y) z =
              ''/api/tiles/'' @ to_string z @ ''/'' @ to_string x @ ''/'' @ to_string y @ ''/'' @
              to_string (latitude_source_table_field_id (vs_map (visualization_settings example_card))) @ ''/'' @
              to_string (longitude_source_table_field_id (vs_map (visualization_settings example_card))) @ ''/'' @
              to_string (latitude_dataset_col_index (vs_map (visualization_settings example_card))) @ ''/'' @
              to_string (longitude_dataset_col_index (vs_map (visualization_settings example_card))) @
              ''/?query='' @ encodeURIComponent example_env (JSON_stringify example_env (dataset_query example_card))"
    by blast
  have digits: "to_string (JNum 7) = ''7''" "to_string (JNum 3) = ''3''" "to_string (JNum 5) = ''5''"
    "to_string (JNum 12) = ''12''" "to_string (JNum 13) = ''13''"
    "to_string (JNum 0) = ''0''" "to_string (JNum 1) = ''1''"
    by code_simp+
  have "f (JNum 3, JNum 5) (JNum 7) = ''/api/tiles/7/3/5/12/13/0/1/?query=%7B%7D''"
    using url digits
    by (simp add: example_card_def example_settings_def example_map_settings_def example_env_def)
  with run ov show ?thesis by blast
qed

text \<open>
  C9: the second throw of \<^verbatim>\<open>pin_map\<close> is dead. Its guard is the guard of the
  early return above it, so no card and no environment make \<^verbatim>\<open>pin_map\<close>
  throw that message.
\<close>

theorem pin_map_second_throw_unreachable:
  "pin_map E element crd \<noteq>
     Inl (Thrown ''Map ERROR: unable to find specified latitude / longitude columns in source table'')"
  by (simp add: pin_map_def Let_def)

section \<open>Sequencing lemmas\<close>

lemma fst_ok [simp]: "fst (ok es) = es"
  by (simp add: ok_def)

lemma snd_ok [simp]: "snd (ok es) = None"
  by (simp add: ok_def)

lemma fst_throw [simp]: "fst (throw e) = []"
  by (simp add: throw_def)

lemma snd_throw [simp]: "snd (throw e) = Some e"
  by (simp add: throw_def)

lemma andThen_ok [simp]: "andThen (ok es) b = (es @ fst b, snd b)"
  by (simp add: andThen_def ok_def)

lemma andThen_try_catch [simp]: "andThen (try_catch a) b = (fst a @ fst b, snd b)"
  by (simp add: andThen_def try_catch_def)

lemma andThen_throw [simp]: "andThen (throw e) b = throw e"
  by (simp add: andThen_def throw_def)

lemma fst_andThen:
  "fst (andThen a b) = (case snd a of Some e \<Rightarrow> fst a | None \<Rightarrow> fst a @ fst b)"
  by (simp add: andThen_def split: option.splits)

lemma snd_andThen:
  "snd (andThen a b) = (case snd a of Some e \<Rightarrow> Some e | None \<Rightarrow> snd b)"
  by (simp add: andThen_def split: option.splits)

lemma andThen_no_exception: "snd a = None \<Longrightarrow> andThen a b = (fst a @ fst b, snd b)"
  by (simp add: andThen_def)

section \<open>Properties of lineAndBarOnRender\<close>

text \<open>
  What \<^verbatim>\<open>lineAndBarOnRender\<close> does, whatever its four \<^verbatim>\<open>try\<close> blocks run into:
  the effects each block made before it ended, the renderlet, then the margin
  adjustment and, unless that threw, the render.
\<close>

lemma lineAndBarOnRender_run:
  "lineAndBarOnRender D ch crd =
     (fst (xAxisLabelCustomizations D (vs_xAxis (visualization_settings crd))) @
      fst (yAxisLabelCustomizations D (vs_yAxis (visualization_settings crd))) @
      fst (verticalGridLineCustomizations D (vs_xAxis (visualization_settings crd))) @
      fst (horizontalGridLineCustomizations D (vs_yAxis (visualization_settings crd))) @
      [DcOn (c_ref ch) ''renderlet.lineAndBarOnRender'' onRenderRenderlet] @
      fst (adjustMargins D (c_ref ch)) @
      (if snd (adjustMargins D (c_ref ch)) = None then [DcCall (c_ref ch) ''render'' []] else []),
      snd (adjustMargins D (c_ref ch)))"
  by (simp add: lineAndBarOnRender_def Let_def fst_andThen snd_andThen ok_def
        split: option.splits)

lemma adjustMargins_axes:
  assumes "select_first (chart_selectAll D ''.axis.y'') \<noteq> None"
    and "select_first (chart_selectAll D ''.axis.x'') \<noteq> None"
  shows "snd (adjustMargins D r) = None"
  using assms by (auto simp: adjustMargins_def ok_def andThen_def)

text \<open>
  C2: no exception of the four customization blocks leaves
  \<^verbatim>\<open>lineAndBarOnRender\<close>. Its exception, if any, is that of the margin
  adjustment alone; what a block did before it threw stays done; the renderlet
  is registered and the margin adjustment runs after the blocks in every case,
  and the render runs after it. When the chart has its two axes, so that the
  margin adjustment finds their boxes, the function ends without an exception
  and its last call is the render.
\<close>

theorem lineAndBarOnRender_best_effort:
  "snd (lineAndBarOnRender D ch crd) = snd (adjustMargins D (c_ref ch)) \<and>
   fst (lineAndBarOnRender D ch crd) =
     fst (xAxisLabelCustomizations D (vs_xAxis (visualization_settings crd))) @
     fst (yAxisLabelCustomizations D (vs_yAxis (visualization_settings crd))) @
     fst (verticalGridLineCustomizations D (vs_xAxis (visualization_settings crd))) @
     fst (horizontalGridLineCustomizations D (vs_yAxis (visualization_settings crd))) @
     [DcOn (c_ref ch) ''renderlet.lineAndBarOnRender'' onRenderRenderlet] @
     fst (adjustMargins D (c_ref ch)) @
     (if snd (adjustMargins D (c_ref ch)) = None then [DcCall (c_ref ch) ''render'' []] else []) \<and>
   (select_first (chart_selectAll D ''.axis.y'') \<noteq> None \<and>
    select_first (chart_selectAll D ''.axis.x'') \<noteq> None \<longrightarrow>
      snd (lineAndBarOnRender D ch crd) = None \<and>
      (\<exists>es. fst (lineAndBarOnRender D ch crd) = es @ [DcCall (c_ref ch) ''render'' []]))"
proof -
  have "snd (lineAndBarOnRender D ch crd) = None \<and>
      (\<exists>es. fst (lineAndBarOnRender D ch crd) = es @ [DcCall (c_ref ch) ''render'' []])"
    if "select_first (chart_selectAll D ''.axis.y'') \<noteq> None"
      and "select_first (chart_selectAll D ''.axis.x'') \<noteq> None"
  proof -
    have "snd (adjustMargins D (c_ref ch)) = None"
      using that by (rule adjustMargins_axes)
    then show ?thesis
      by (simp add: lineAndBarOnRender_run)
  qed
  then show ?thesis
    by (simp add: lineAndBarOnRender_run)
qed

theorem lineAndBarOnRender_best_effort_witness:
  "snd (xAxisLabelCustomizations example_dom (vs_xAxis (visualization_settings example_card))) =
     Some (TypeError ''element.length'') \<and>
   snd (verticalGridLineCustomizations example_dom (vs_xAxis (visualization_settings example_card))) =
     Some (TypeError ''.grid-line.vertical children'') \<and>
   lineAndBarOnRender example_dom example_chart example_card =
     ([DcOn MainChart ''renderlet.lineAndBarOnRender'' onRenderRenderlet,
       DcSet MainChart ''margins.left'' (AVal (JNum 70)),
       DcSet MainChart ''margins.bottom'' (AVal (JNum 50)),
       DcCall MainChart ''render'' []], None)"
proof -
  have x: "xAxisLabelCustomizations example_dom (vs_xAxis (visualization_settings example_card)) =
      throw (TypeError ''element.length'')"
    by (simp add: xAxisLabelCustomizations_def example_dom_def example_card_def example_settings_def
        example_axis_settings_def select_first_def node_target_def customizer_def)
  have y: "yAxisLabelCustomizations example_dom (vs_yAxis (visualization_settings example_card)) =
      throw (TypeError ''element.length'')"
    by (simp add: yAxisLabelCustomizations_def example_dom_def example_card_def example_settings_def
        example_axis_settings_def select_first_def node_target_def customizer_def)
  have v: "verticalGridLineCustomizations example_dom (vs_xAxis (visualization_settings example_card)) =
      throw (TypeError ''.grid-line.vertical children'')"
    by (simp add: verticalGridLineCustomizations_def example_dom_def select_first_def)
  have h: "horizontalGridLineCustomizations example_dom (vs_yAxis (visualization_settings example_card)) =
      throw (TypeError ''.grid-line.horizontal children'')"
    by (simp add: horizontalGridLineCustomizations_def example_dom_def select_first_def)
  have m: "adjustMargins example_dom MainChart =
      ([DcSet MainChart ''margins.left'' (AVal (JNum 70)),
        DcSet MainChart ''margins.bottom'' (AVal (JNum 50))], None)"
    by (simp add: adjustMargins_def example_dom_def select_first_def example_node_def
        ok_def andThen_def)
  have r: "c_ref example_chart = MainChart"
    by (simp add: example_chart_def)
  from lineAndBarOnRender_best_effort [of example_dom example_chart example_card]
  have "lineAndBarOnRender example_dom example_chart example_card =
     ([DcOn MainChart ''renderlet.lineAndBarOnRender'' onRenderRenderlet,
       DcSet MainChart ''margins.left'' (AVal (JNum 70)),
       DcSet MainChart ''margins.bottom'' (AVal (JNum 50)),
       DcCall MainChart ''render'' []], None)"
    by (simp add: x y v h m r throw_def prod_eq_iff)
  then show ?thesis
    by (simp add: x v throw_def)
qed

section \<open>Properties of applyChartTooltips\<close>

text \<open>
  C6: given a callback, \<^verbatim>\<open>applyChartTooltips\<close> registers one renderlet on the
  chart. Run on a rendered chart, the renderlet binds two listeners on every
  node matched by \<^verbatim>\<open>.bar, .dot, .area, .line, g.pie-slice, g.features\<close> and
  removes every title node. The mousemove listener calls the callback with the
  hovered node, its datum and the series index
  \<^verbatim>\<open>determineSeriesIndexFromElement\<close> finds for the node; the mouseleave
  listener calls it with null alone. Each listener does what the callback
  does, and nothing else.
\<close>

theorem applyChartTooltips_binds_hover:
  "\<exists>renderlet. applyChartTooltips E r (Some onHoverChange) = [DcOn r ''renderlet'' renderlet] \<and>
     (\<forall>D. \<exists>mousemove mouseleave.
        renderlet D =
          ([SelOn (chart_selectAll D ''.bar, .dot, .area, .line, g.pie-slice, g.features'')
              ''mousemove'' mousemove,
            SelOn (chart_selectAll D ''.bar, .dot, .area, .line, g.pie-slice, g.features'')
              ''mouseleave'' mouseleave,
            SelRemove (chart_selectAll D ''title'')], None) \<and>
        (\<forall>this d i.
           mousemove this d i =
             onHoverChange [HElem this, HVal d, HVal (JsonVal (determineSeriesIndexFromElement E this))] \<and>
           mouseleave this d i = onHoverChange [HVal (JsonVal JNull)]))"
  by (simp add: applyChartTooltips_def tooltip_renderlet_def tooltip_selector_def
        tooltip_mousemove_def tooltip_mouseleave_def ok_def)

theorem applyChartTooltips_binds_hover_witness:
  "\<exists>renderlet mousemove mouseleave.
     applyChartTooltips example_env MainChart (Some recordHover) =
       [DcOn MainChart ''renderlet'' renderlet] \<and>
     renderlet bars_dom =
       ([SelOn [example_node 3, example_node 4] ''mousemove'' mousemove,
         SelOn [example_node 3, example_node 4] ''mouseleave'' mouseleave,
         SelRemove [example_node 5]], None) \<and>
     mousemove (example_node 4) (JsonVal (JNum 7)) 1 =
       ([OnHoverChange [HElem (example_node 4), HVal (JsonVal (JNum 7)), HVal (JsonVal (JNum 0))]],
        None) \<and>
     mouseleave (example_node 4) (JsonVal (JNum 7)) 1 = ([OnHoverChange [HVal (JsonVal JNull)]], None)"
proof -
  from applyChartTooltips_binds_hover [of example_env MainChart recordHover]
  obtain renderlet where reg:
      "applyChartTooltips example_env MainChart (Some recordHover) =
         [DcOn MainChart ''renderlet'' renderlet]"
    and run: "\<forall>D. \<exists>mousemove mouseleave.
        renderlet D =
          ([SelOn (chart_selectAll D ''.bar, .dot, .area, .line, g.pie-slice, g.features'')
              ''mousemove'' mousemove,
            SelOn (chart_selectAll D ''.bar, .dot, .area, .line, g.pie-slice, g.features'')
              ''mouseleave'' mouseleave,
            SelRemove (chart_selectAll D ''title'')], None) \<and>
        (\<forall>this d i.
           mousemove this d i =
             recordHover [HElem this, HVal d,
               HVal (JsonVal (determineSeriesIndexFromElement example_env this))] \<and>
           mouseleave this d i = recordHover [HVal (JsonVal JNull)])"
    by blast
  from run obtain mousemove mouseleave where bound:
      "renderlet bars_dom =
          ([SelOn (chart_selectAll bars_dom ''.bar, .dot, .area, .line, g.pie-slice, g.features'')
              ''mousemove'' mousemove,
            SelOn (chart_selectAll bars_dom ''.bar, .dot, .area, .line, g.pie-slice, g.features'')
              ''mouseleave'' mouseleave,
            SelRemove (chart_selectAll bars_dom ''title'')], None)"
    and fired: "\<forall>this d i.
           mousemove this d i =
             recordHover [HElem this, HVal d,
               HVal (JsonVal (determineSeriesIndexFromElement example_env this))] \<and>
           mouseleave this d i = recordHover [HVal (JsonVal JNull)]"
    by blast
  have sel: "chart_selectAll bars_dom ''.bar, .dot, .area, .line, g.pie-slice, g.features'' =
      [example_node 3, example_node 4]"
    "chart_selectAll bars_dom ''title'' = [example_node 5]"
    by (simp_all add: bars_dom_def)
  have idx: "determineSeriesIndexFromElement example_env (example_node 4) = JNum 0"
    by (simp add: example_env_def)
  have "renderlet bars_dom =
       ([SelOn [example_node 3, example_node 4] ''mousemove'' mousemove,
         SelOn [example_node 3, example_node 4] ''mouseleave'' mouseleave,
         SelRemove [example_node 5]], None)"
    using bound by (simp only: sel)
  moreover have "mousemove (example_node 4) (JsonVal (JNum 7)) 1 =
       ([OnHoverChange [HElem (example_node 4), HVal (JsonVal (JNum 7)), HVal (JsonVal (JNum 0))]],
        None)"
    using fired by (simp add: recordHover_def ok_def idx)
  moreover have "mouseleave (example_node 4) (JsonVal (JNum 7)) 1 =
      ([OnHoverChange [HVal (JsonVal JNull)]], None)"
    using fired by (simp add: recordHover_def ok_def)
  ultimately show ?thesis
    using reg by blast
qed

section \<open>Properties of pie, lineAreaBar, bar, line and area\<close>

lemma initializeChart_ref: "c_ref (fst (initializeChart E r crd element t)) = r"
  by (simp add: initializeChart_def Let_def)

lemma lineAreaBarChart_ref:
  "c_ref (fst (lineAreaBarChart E element chartType series crd colors records yAxisSplit)) = MainChart"
  by (simp add: lineAreaBarChart_def Let_def initializeChart_ref)

lemma snd_andThen_None: "(snd (andThen a b) = None) = (snd a = None \<and> snd b = None)"
  by (simp add: andThen_def split: option.splits)

lemma thenRender_returned:
  assumes "snd (thenRender E ch a) = None"
  shows "snd a = None" and "fst (thenRender E ch a) = fst a @ [DcCall (c_ref ch) ''render'' []]"
  using assms by (simp_all add: thenRender_def andThen_def split: option.splits)

text \<open>
  C5: \<^verbatim>\<open>CardRenderer\<close> has a method for each chart kind: \<^verbatim>\<open>pie\<close>, \<^verbatim>\<open>line\<close>,
  \<^verbatim>\<open>bar\<close>, \<^verbatim>\<open>area\<close>, \<^verbatim>\<open>state\<close>, \<^verbatim>\<open>country\<close> and \<^verbatim>\<open>pin_map\<close>. Its methods
  \<^verbatim>\<open>bar\<close>, \<^verbatim>\<open>line\<close> and \<^verbatim>\<open>area\<close> are \<^verbatim>\<open>lineAreaBar\<close> with the chart type
  \<^verbatim>\<open>"bar"\<close>, \<^verbatim>\<open>"line"\<close> and \<^verbatim>\<open>"area"\<close>: for every element and props each does
  what \<^verbatim>\<open>lineAreaBar\<close> does and ends as it ends.
\<close>

theorem bar_line_area_delegate:
  "map_of CardRenderer ''pie'' = Some (CardOp pie) \<and>
   map_of CardRenderer ''state'' = Some (GeoOp state) \<and>
   map_of CardRenderer ''country'' = Some (GeoOp country) \<and>
   map_of CardRenderer ''pin_map'' = Some (MapOp pin_map) \<and>
   map_of CardRenderer ''bar'' =
     Some (SeriesOp (\<lambda>E D element props. lineAreaBar E D element ''bar'' props)) \<and>
   map_of CardRenderer ''line'' =
     Some (SeriesOp (\<lambda>E D element props. lineAreaBar E D element ''line'' props)) \<and>
   map_of CardRenderer ''area'' =
     Some (SeriesOp (\<lambda>E D element props. lineAreaBar E D element ''area'' props)) \<and>
   bar E D element props = lineAreaBar E D element ''bar'' props \<and>
   line E D element props = lineAreaBar E D element ''line'' props \<and>
   area E D element props = lineAreaBar E D element ''area'' props"
proof -
  have b: "bar = (\<lambda>E D element props. lineAreaBar E D element ''bar'' props)"
    by (intro ext) (simp add: bar_def)
  have l: "line = (\<lambda>E D element props. lineAreaBar E D element ''line'' props)"
    by (intro ext) (simp add: line_def)
  have a: "area = (\<lambda>E D element props. lineAreaBar E D element ''area'' props)"
    by (intro ext) (simp add: area_def)
  have keys: "map_of CardRenderer ''pie'' = Some (CardOp pie)"
    "map_of CardRenderer ''state'' = Some (GeoOp state)"
    "map_of CardRenderer ''country'' = Some (GeoOp country)"
    "map_of CardRenderer ''pin_map'' = Some (MapOp pin_map)"
    "map_of CardRenderer ''bar'' = Some (SeriesOp bar)"
    "map_of CardRenderer ''line'' = Some (SeriesOp line)"
    "map_of CardRenderer ''area'' = Some (SeriesOp area)"
    by (simp_all add: CardRenderer_def)
  have calls: "bar E D element props = lineAreaBar E D element ''bar'' props"
    "line E D element props = lineAreaBar E D element ''line'' props"
    "area E D element props = lineAreaBar E D element ''area'' props"
    by (simp_all add: bar_def line_def area_def)
  from keys calls show ?thesis
    unfolding b [symmetric] l [symmetric] a [symmetric] by (intro conjI)
qed

text \<open>
  C8: when the result of the first series has fewer than two columns,
  \<^verbatim>\<open>lineAreaBar\<close> returns having done nothing: no call on crossfilter, none on
  a chart, no render, no callback, and no exception.
\<close>

theorem lineAreaBar_too_few_columns:
  assumes "props_series props = s0 # others"
    and "length (cols (s_data s0)) < 2"
  shows "lineAreaBar E D element chartType props = ([], None)"
  using assms by (simp add: lineAreaBar_def Let_def ok_def)

theorem lineAreaBar_too_few_columns_witness:
  "length (cols (s_data \<lparr> s_card = example_card, s_data = one_column_dataset \<rparr>)) < 2 \<and>
   lineAreaBar example_env example_dom 0 ''line'' one_column_series_props = ([], None)"
proof -
  have series: "props_series one_column_series_props =
      \<lparr> s_card = example_card, s_data = one_column_dataset \<rparr> # []"
    by (simp add: one_column_series_props_def)
  have columns: "length (cols (s_data \<lparr> s_card = example_card, s_data = one_column_dataset \<rparr>)) < 2"
    by (simp add: one_column_dataset_def)
  from lineAreaBar_too_few_columns [OF series columns] columns
  show ?thesis by simp
qed

section \<open>No handler calls render\<close>

lemma defers_render_Nil [simp]: "\<not> defers_render D []"
  by (simp add: defers_render_def)

lemma defers_render_Cons [simp]:
  "defers_render D (e # es) = (list_ex is_render (handler_effects D e) \<or> defers_render D es)"
  by (simp add: defers_render_def)

lemma defers_render_append [simp]:
  "defers_render D (es @ fs) = (defers_render D es \<or> defers_render D fs)"
  by (simp add: defers_render_def)

lemma defers_render_map [simp]:
  "defers_render D (map f vs) = list_ex (\<lambda>v. list_ex is_render (handler_effects D (f v))) vs"
  by (simp add: defers_render_def list_ex_iff)

lemma list_ex_False [simp]: "list_ex (\<lambda>v. False) vs = False"
  by (simp add: list_ex_iff)

lemma not_defers_andThen [simp]:
  assumes "\<not> defers_render D (fst a)" and "\<not> defers_render D (fst b)"
  shows "\<not> defers_render D (fst (andThen a b))"
  using assms by (simp add: fst_andThen split: option.splits)

lemma not_defers_seq:
  assumes "\<And>a. a \<in> set as \<Longrightarrow> \<not> defers_render D (fst a)"
  shows "\<not> defers_render D (fst (seq as))"
  using assms by (induction as) (simp_all add: not_defers_andThen)

lemma andThen_assoc: "andThen (andThen a b) c = andThen a (andThen b c)"
  by (simp add: andThen_def split: option.splits)

lemma seq_append: "seq (as @ bs) = andThen (seq as) (seq bs)"
  by (induction as) (simp_all add: andThen_assoc)

lemma not_defers_seq_map [simp]:
  assumes "\<And>v. \<not> defers_render D (fst (f v))"
  shows "\<not> defers_render D (fst (seq (map f vs)))"
  using assms by (intro not_defers_seq) auto

lemma not_defers_dc_part [simp]:
  assumes "\<not> defers_render D es"
  shows "\<not> defers_render D (fst (dc_part E ch part es))"
  using assms by (simp add: dc_part_def)

lemma not_defers_dc_call [simp]: "\<not> defers_render D (fst (dc_call E ch m args))"
  by (simp add: dc_call_def not_defers_dc_part)

lemma not_defers_dc_part_call [simp]: "\<not> defers_render D (fst (dc_part_call E ch part m args))"
  by (simp add: dc_part_call_def not_defers_dc_part)

lemma not_renders_andThen [simp]:
  assumes "\<not> list_ex is_render (fst a)" and "\<not> list_ex is_render (fst b)"
  shows "\<not> list_ex is_render (fst (andThen a b))"
  using assms by (simp add: fst_andThen split: option.splits)

lemma not_renders_for_each:
  assumes "\<And>v. \<not> list_ex is_render (fst (f v))"
  shows "\<not> list_ex is_render (fst (for_each f vs))"
  using assms by (induction vs) (simp_all add: not_renders_andThen)

lemma tooltip_renderlet_no_render: "\<not> list_ex is_render (fst (tooltip_renderlet E cb D))"
  by (simp add: tooltip_renderlet_def)

lemma onRenderRenderlet_no_render: "\<not> list_ex is_render (fst (onRenderRenderlet D))"
  unfolding onRenderRenderlet_def
  by (intro not_renders_andThen not_renders_for_each)
     (simp_all add: fst_andThen split: option.splits)

lemma groupedBarRenderlet_no_render: "\<not> list_ex is_render (fst (groupedBarRenderlet E D))"
proof -
  have each: "\<not> list_ex is_render (fst (for_each
      (\<lambda>(barChart, index).
          case barChart of
            None \<Rightarrow> throw (TypeError ''barChart.setAttribute'')
          | Some b \<Rightarrow> ok [SetAttribute b ''transform'' (AClosure ''translate(v, 0)'' [ARat (g index)])])
      vs))" for g vs
    by (rule not_renders_for_each) (simp split: prod.splits option.splits)
  show ?thesis
    unfolding groupedBarRenderlet_def Let_def
    by (simp add: each fst_andThen split: sum.splits list.splits option.splits)
qed

lemma not_defers_applyChartTooltips: "\<not> defers_render D (applyChartTooltips E r cb)"
  by (simp add: applyChartTooltips_def tooltip_renderlet_no_render)

lemma not_defers_adjustTicks [simp]:
  "\<not> defers_render D (fst (adjustTicksIfNeeded r axis ticks axisSize minPixelsPerTick))"
  by (simp add: adjustTicksIfNeeded_def split: list.splits)

lemma not_defers_lineBarSettings:
  "\<not> defers_render D (applyChartLineBarSettings E ch crd chartType)"
  by (simp add: applyChartLineBarSettings_def)

lemma not_defers_initializeChart:
  "\<not> defers_render D (fst (snd (initializeChart E r crd element t)))"
  by (simp add: initializeChart_def Let_def applyChartBoundary_def applyChartLegend_def)

lemma not_defers_timeseries:
  "\<not> defers_render D (fst (applyChartTimeseriesXAxis E ch crd cs xValues))"
  by (simp add: applyChartTimeseriesXAxis_def Let_def split: sum.splits)

lemma not_defers_ordinal:
  "\<not> defers_render D (fst (applyChartOrdinalXAxis E ch crd cs xValues))"
  by (simp add: applyChartOrdinalXAxis_def Let_def split: sum.splits option.splits list.splits)

lemma not_defers_yAxis:
  "\<not> defers_render D (fst (applyChartYAxis E ch crd cs))"
  by (simp add: applyChartYAxis_def Let_def)

lemma not_defers_lineAreaBarChart:
  "\<not> defers_render D
     (fst (snd (lineAreaBarChart E element chartType series crd colors records yAxisSplit)))"
  by (simp add: lineAreaBarChart_def Let_def seq_append not_defers_initializeChart
        not_defers_lineBarSettings groupedBarRenderlet_no_render)

lemma not_defers_customizer [simp]:
  "\<not> defers_render D (fst (customizer element attrName attrValue attrValueTransformFn))"
  by (simp add: customizer_def Let_def split: target.splits)

lemma not_defers_lineAndBarOnRender:
  "\<not> defers_render D' (fst (lineAndBarOnRender D ch crd))"
proof -
  have x: "\<not> defers_render D' (fst (xAxisLabelCustomizations D s))" for s
    by (simp add: xAxisLabelCustomizations_def Let_def not_defers_andThen not_defers_customizer)
  have y: "\<not> defers_render D' (fst (yAxisLabelCustomizations D s))" for s
    by (simp add: yAxisLabelCustomizations_def Let_def not_defers_andThen not_defers_customizer)
  have v: "\<not> defers_render D' (fst (verticalGridLineCustomizations D s))" for s
    by (simp add: verticalGridLineCustomizations_def Let_def not_defers_andThen not_defers_customizer
          split: option.splits)
  have h: "\<not> defers_render D' (fst (horizontalGridLineCustomizations D s))" for s
    by (simp add: horizontalGridLineCustomizations_def Let_def not_defers_andThen
          not_defers_customizer split: option.splits)
  have m: "\<not> defers_render D' (fst (adjustMargins D r))" for r
    unfolding adjustMargins_def
    by (intro not_defers_andThen) (simp_all split: option.splits)
  show ?thesis
    by (simp add: lineAndBarOnRender_run x y v h m onRenderRenderlet_no_render)
qed

lemma thenRender_shape:
  assumes returned: "snd (thenRender E ch a) = None"
    and ref: "c_ref ch = r"
    and quiet: "\<And>D. \<not> defers_render D (fst a)"
  shows "\<exists>es. fst (thenRender E ch a) = es @ [DcCall r ''render'' []] \<and>
           (\<forall>D. \<not> defers_render D es)"
proof -
  from thenRender_returned(2) [OF returned] ref
  have "fst (thenRender E ch a) = fst a @ [DcCall r ''render'' []]"
    by simp
  with quiet show ?thesis
    by blast
qed

lemma render_then_rest_shape:
  assumes returned: "snd (andThen (thenRender E ch a) (andThen l c)) = None"
    and ref: "c_ref ch = r"
    and quiet_a: "\<And>D. \<not> defers_render D (fst a)"
    and quiet_l: "\<And>D. \<not> defers_render D (fst l)"
  shows "\<exists>es. DcCall r ''render'' [] \<in> set es \<and> (\<forall>D. \<not> defers_render D es) \<and>
           fst (andThen (thenRender E ch a) (andThen l c)) = es @ fst c"
proof -
  from returned have t: "snd (thenRender E ch a) = None" and l: "snd l = None"
    by (simp_all add: snd_andThen_None)
  from thenRender_returned(2) [OF t] ref
  have first: "fst (thenRender E ch a) = fst a @ [DcCall r ''render'' []]"
    by simp
  let ?es = "(fst a @ [DcCall r ''render'' []]) @ fst l"
  have "fst (andThen (thenRender E ch a) (andThen l c)) = ?es @ fst c"
    by (simp add: andThen_no_exception [OF t] andThen_no_exception [OF l] first)
  moreover have "DcCall r ''render'' [] \<in> set ?es"
    by simp
  moreover have "\<forall>D. \<not> defers_render D ?es"
    using quiet_a quiet_l by simp
  ultimately have "DcCall r ''render'' [] \<in> set ?es \<and> (\<forall>D. \<not> defers_render D ?es) \<and>
      fst (andThen (thenRender E ch a) (andThen l c)) = ?es @ fst c"
    by (intro conjI)
  then show ?thesis
    by (rule exI)
qed

lemma pie_returned:
  assumes "snd (pie E element props) = None"
  shows "\<exists>es. fst (pie E element props) = es @ [DcCall MainChart ''render'' []] \<and>
           (\<forall>D. \<not> defers_render D es)"
  using assms unfolding pie_def Let_def
  apply (erule_tac thenRender_shape)
   apply (rule initializeChart_ref)
  apply (simp add: not_defers_initializeChart not_defers_applyChartTooltips split: option.splits)
  done

lemma lineAreaBar_returned:
  assumes series: "props_series props = s0 # others"
    and columns: "\<not> length (cols (s_data s0)) < 2"
    and returned: "snd (lineAreaBar E D element chartType props) = None"
  shows "\<exists>es. DcCall MainChart ''render'' [] \<in> set es \<and> (\<forall>D'. \<not> defers_render D' es) \<and>
    fst (lineAreaBar E D element chartType props) =
      es @ (case props_onRender props of
              None \<Rightarrow> []
            | Some f \<Rightarrow>
                fst (f (yAxisSplitOf E
                     (concat (allRecords (dimensionIsTimeseries E (s_data s0)) (props_series props)))
                     (length (props_series props)))))"
proof -
  let ?ts = "dimensionIsTimeseries E (s_data s0)"
  let ?records = "allRecords ?ts (s0 # others)"
  let ?split = "yAxisSplitOf E (concat ?records) (length (s0 # others))"
  let ?xValues = "map fst (group_all E (concat ?records) None)"
  let ?made = "lineAreaBarChart E element chartType (s0 # others) (s_card s0)
                 (getCardColors E (s_card s0)) ?records ?split"
  let ?ch = "fst ?made"
  let ?P = "seq
      [snd ?made,
       (if ?ts then applyChartTimeseriesXAxis E ?ch (s_card s0) (cols (s_data s0)) ?xValues
        else applyChartOrdinalXAxis E ?ch (s_card s0) (cols (s_data s0)) ?xValues),
       applyChartYAxis E ?ch (s_card s0) (cols (s_data s0)),
       ok (applyChartTooltips E (c_ref ?ch) (Some (lineAreaBarHover (series_onHoverChange props))) @
           (if has_method E (c_dcType ?ch) ''brushOn''
            then [DcCall (c_ref ?ch) ''brushOn'' [AVal (JBool False)]] else []))]"
  let ?L = "lineAndBarOnRender D ?ch (s_card s0)"
  let ?cb = "case props_onRender props of None \<Rightarrow> ok [] | Some f \<Rightarrow> f ?split"
  have early: "(length (cols (s_data s0)) < 2) = False"
    using columns by simp
  have eq: "lineAreaBar E D element chartType props =
      andThen (thenRender E ?ch ?P) (andThen ?L ?cb)"
    unfolding lineAreaBar_def Let_def series
    by (simp only: list.case early if_False)
  have ref: "c_ref ?ch = MainChart"
    by (rule lineAreaBarChart_ref)
  have quiet_P: "\<not> defers_render D' (fst ?P)" for D'
    by (simp add: not_defers_lineAreaBarChart not_defers_timeseries not_defers_ordinal
          not_defers_yAxis not_defers_applyChartTooltips)
  have quiet_L: "\<not> defers_render D' (fst ?L)" for D'
    by (rule not_defers_lineAndBarOnRender)
  from returned have "snd (andThen (thenRender E ?ch ?P) (andThen ?L ?cb)) = None"
    by (simp only: eq)
  from render_then_rest_shape [OF this ref quiet_P quiet_L]
  obtain es where here: "DcCall MainChart ''render'' [] \<in> set es"
    and quiet: "\<forall>D'. \<not> defers_render D' es"
    and all: "fst (andThen (thenRender E ?ch ?P) (andThen ?L ?cb)) = es @ fst ?cb"
    by blast
  have cb: "fst ?cb = (case props_onRender props of None \<Rightarrow> [] | Some f \<Rightarrow> fst (f ?split))"
    by (simp split: option.splits)
  have "fst (lineAreaBar E D element chartType props) =
      es @ (case props_onRender props of None \<Rightarrow> [] | Some f \<Rightarrow> fst (f ?split))"
    using all by (simp only: eq cb)
  then have "fst (lineAreaBar E D element chartType props) =
      es @ (case props_onRender props of
              None \<Rightarrow> []
            | Some f \<Rightarrow>
                fst (f (yAxisSplitOf E
                     (concat (allRecords (dimensionIsTimeseries E (s_data s0)) (props_series props)))
                     (length (props_series props)))))"
    by (simp only: series)
  with here quiet show ?thesis
    by blast
qed

lemma geo_customize_quiet:
  "\<not> defers_render D (concat (map (customize_effects r) (state E element props)))"
  "\<not> defers_render D (concat (map (customize_effects r) (country E element props)))"
  by (simp_all add: state_def country_def Let_def not_defers_applyChartTooltips)



section \<open>Properties of state and country\<close>

text \<open>
  C4: \<^verbatim>\<open>state\<close> sets the JSON source \<^verbatim>\<open>/app/charts/us-states.json\<close> with the
  accessor that reads \<^verbatim>\<open>properties.name\<close> of a feature, \<^verbatim>\<open>country\<close> sets
  \<^verbatim>\<open>/app/charts/world.json\<close> with the accessor that reads
  \<^verbatim>\<open>properties.ISO_A2\<close>, whatever the element, the card, the data and the
  callback. On a feature with a properties object the accessor answers with
  the value stored there under that name.
\<close>

theorem geo_json_sources:
  "(\<exists>key. json_source (state E element props) = Some (''/app/charts/us-states.json'', key) \<and>
      key (JsonObj ((''properties'', JsonObj ps) # others)) =
        Inr (case map_of ps ''name'' of Some v \<Rightarrow> v | None \<Rightarrow> JsonVal JUndefined)) \<and>
   (\<exists>key. json_source (country E element props') = Some (''/app/charts/world.json'', key) \<and>
      key (JsonObj ((''properties'', JsonObj ps) # others)) =
        Inr (case map_of ps ''ISO_A2'' of Some v \<Rightarrow> v | None \<Rightarrow> JsonVal JUndefined))"
  by (simp add: state_def country_def Let_def feature_property_def json_prop_def
        split: option.splits)

text \<open>
  C10: the chart data \<^verbatim>\<open>country\<close> hands to the renderer has, for each row in
  turn, a code and the row's second value. When the row's first value is a
  string the code is what \<^verbatim>\<open>toUpperCase\<close> makes of its first two characters,
  whatever follows them in the string; any other first value is the code as it
  is.
\<close>

theorem country_code_two_letters:
  "chart_data (country E element props) =
     Some (map (countryChartDatum E) (rows (props_data props))) \<and>
   (row_get value 0 = JStr s \<longrightarrow>
      countryChartDatum E value = (JStr (toUpperCase E (take 2 s)), row_get value 1)) \<and>
   ((\<forall>t. row_get value 0 \<noteq> JStr t) \<longrightarrow>
      countryChartDatum E value = (row_get value 0, row_get value 1))"
proof -
  have data: "chart_data (country E element props) =
      Some (map (countryChartDatum E) (rows (props_data props)))"
    by (simp add: country_def Let_def)
  have str: "countryChartDatum E value = (JStr (toUpperCase E (take 2 s)), row_get value 1)"
    if "row_get value 0 = JStr s"
    using that by (simp add: countryChartDatum_def substring_0_2_def)
  have other: "countryChartDatum E value = (row_get value 0, row_get value 1)"
    if "\<forall>t. row_get value 0 \<noteq> JStr t"
    using that by (cases "row_get value 0") (simp_all add: countryChartDatum_def)
  from data str other show ?thesis by blast
qed

theorem country_code_two_letters_witness:
  "countryChartDatum example_env [JStr ''united states'', JNum 3] = (JStr ''UN'', JNum 3) \<and>
   countryChartDatum example_env [JStr ''f''] = (JStr ''F'', JUndefined) \<and>
   countryChartDatum example_env [JNum 4, JNum 9] = (JNum 4, JNum 9)"
proof -
  have up: "toUpperCase example_env ''un'' = ''UN''" "toUpperCase example_env ''f'' = ''F''"
    by code_simp+
  have a: "countryChartDatum example_env [JStr ''united states'', JNum 3] = (JStr ''UN'', JNum 3)"
    using country_code_two_letters [of example_env 0 example_card_props
        "[JStr ''united states'', JNum 3]" "''united states''"]
    by (simp add: row_get_def up)
  have b: "countryChartDatum example_env [JStr ''f''] = (JStr ''F'', JUndefined)"
    using country_code_two_letters [of example_env 0 example_card_props "[JStr ''f'']" "''f''"]
    by (simp add: row_get_def up)
  have c: "countryChartDatum example_env [JNum 4, JNum 9] = (JNum 4, JNum 9)"
    using country_code_two_letters [of example_env 0 example_card_props "[JNum 4, JNum 9]" "[]"]
    by (simp add: row_get_def)
  from a b c show ?thesis by simp
qed

end
